theory Spec2Isabelle
  imports Complex_Main "HOL-Library.Word"
begin

section \<open>The path-tracing shaders of optixLisa\<close>

text \<open>
  The repository holds two device programs, \<^verbatim>\<open>src/shader.cu\<close> and its near copy
  \<^verbatim>\<open>shader2.cu\<close>. Both are embedded here. A definition keeps the name of the source
  function; where the two files differ the definition taken from \<^verbatim>\<open>shader2.cu\<close> carries
  the suffix \<open>2\<close>.

  Conventions of the embedding:
  \<^item> \<^verbatim>\<open>float\<close> is the type \<open>real\<close>: rounding, infinities and NaN are not represented.
    Where the device divides by zero (a NaN or an infinity there) HOL's \<open>x / 0 = 0\<close>
    says nothing about the program, and the theorems that depend on it carry the
    hypothesis that the divisor is not zero.
  \<^item> \<^verbatim>\<open>unsigned int\<close> is \<open>32 word\<close>; \<^verbatim>\<open>int\<close> is \<open>32 word\<close> read with \<open>sint\<close>.
  \<^item> A program that writes through the payload pointer returned by \<^verbatim>\<open>getInter()\<close>
    takes the \<^verbatim>\<open>Intersection\<close> and returns the updated one.
  \<^item> \<^verbatim>\<open>optixTrace\<close> is the scene: a function from a ray to the hit it reports, if any;
    the trace functions run the miss or closest-hit program on the answer.
  \<^item> \<^verbatim>\<open>random.h\<close> (\<^verbatim>\<open>rnd\<close>, \<^verbatim>\<open>tea\<close>), \<^verbatim>\<open>structs.hh\<close> and \<^verbatim>\<open>cuda/helpers.h\<close>
    (\<^verbatim>\<open>make_color\<close>) are not among the sources. The generator \<^verbatim>\<open>rnd\<close>, the hash
    \<^verbatim>\<open>tea<4>\<close> and \<^verbatim>\<open>make_color\<close> are parameters of the functions that call them; the
    structs are read off the fields the shaders use.
  \<^item> A loop is a recursive function of its loop variable, with its termination proved.
    The light sampler and the bounce loop return, next to their result, the list of the
    states that came back from the rays they traced, one entry for each call of
    \<^verbatim>\<open>optixTrace\<close>, in the order of the calls.
  \<^item> \<^verbatim>\<open>refract\<close> (\<^verbatim>\<open>shader.cu\<close>) and \<^verbatim>\<open>print_color\<close> (\<^verbatim>\<open>shader2.cu\<close>) have no caller and
    are left out; \<^verbatim>\<open>packPointer\<close> and \<^verbatim>\<open>unpackPointer\<close> carry the address of the
    \<^verbatim>\<open>Intersection\<close> through the payload registers and disappear in the state passing.
\<close>

subsection \<open>Vectors (\<^verbatim>\<open>sutil/vec_math.h\<close>)\<close>

datatype float2 = make_float2 (f2x: real) (f2y: real)

datatype float3 = make_float3 (f3x: real) (f3y: real) (f3z: real)

datatype float4 = make_float4 (xyz4: float3) (w4: real)

text \<open>\<^verbatim>\<open>make_float3(float s)\<close>: the same value in each component.\<close>

definition splat3 :: "real \<Rightarrow> float3" where
  "splat3 s = make_float3 s s s"

definition add3 :: "float3 \<Rightarrow> float3 \<Rightarrow> float3" where
  "add3 a b = make_float3 (f3x a + f3x b) (f3y a + f3y b) (f3z a + f3z b)"

definition sub3 :: "float3 \<Rightarrow> float3 \<Rightarrow> float3" where
  "sub3 a b = make_float3 (f3x a - f3x b) (f3y a - f3y b) (f3z a - f3z b)"

text \<open>\<^verbatim>\<open>float3 * float3\<close> multiplies component by component.\<close>

definition mul3 :: "float3 \<Rightarrow> float3 \<Rightarrow> float3" where
  "mul3 a b = make_float3 (f3x a * f3x b) (f3y a * f3y b) (f3z a * f3z b)"

definition scale3 :: "real \<Rightarrow> float3 \<Rightarrow> float3" where
  "scale3 s a = make_float3 (s * f3x a) (s * f3y a) (s * f3z a)"

definition neg3 :: "float3 \<Rightarrow> float3" where
  "neg3 a = make_float3 (- f3x a) (- f3y a) (- f3z a)"

definition div3 :: "float3 \<Rightarrow> real \<Rightarrow> float3" where
  "div3 a s = make_float3 (f3x a / s) (f3y a / s) (f3z a / s)"

definition dot :: "float3 \<Rightarrow> float3 \<Rightarrow> real" where
  "dot a b = f3x a * f3x b + f3y a * f3y b + f3z a * f3z b"

definition cross :: "float3 \<Rightarrow> float3 \<Rightarrow> float3" where
  "cross a b = make_float3 (f3y a * f3z b - f3z a * f3y b)
                           (f3z a * f3x b - f3x a * f3z b)
                           (f3x a * f3y b - f3y a * f3x b)"

text \<open>
  \<^verbatim>\<open>normalize(v)\<close> is \<^verbatim>\<open>v * (1.0f / sqrtf(dot(v, v)))\<close>, for \<^verbatim>\<open>float3\<close> and for
  \<^verbatim>\<open>float2\<close>. At the zero vector the device computes \<^verbatim>\<open>0 * (1 / 0)\<close>, a NaN; the value the
  definitions have there, the zero vector, is not the program's, and every statement
  below on the components or the length of a normalised vector has the hypothesis that
  the vector is not zero.
\<close>

definition normalize3 :: "float3 \<Rightarrow> float3" where
  "normalize3 v = scale3 (1 / sqrt (dot v v)) v"

definition dot2 :: "float2 \<Rightarrow> float2 \<Rightarrow> real" where
  "dot2 a b = f2x a * f2x b + f2y a * f2y b"

definition normalize2 :: "float2 \<Rightarrow> float2" where
  "normalize2 v = make_float2 (f2x v * (1 / sqrt (dot2 v v))) (f2y v * (1 / sqrt (dot2 v v)))"

text \<open>\<^verbatim>\<open>copysignf(1.0f, x)\<close>; the reals have no negative zero.\<close>

definition copysign1 :: "real \<Rightarrow> real" where
  "copysign1 x = (if x < 0 then - 1 else 1)"

text \<open>\<^verbatim>\<open>faceforward(n, i, nref)\<close> is \<^verbatim>\<open>n * copysignf(1.0f, dot(i, nref))\<close>.\<close>

definition faceforward :: "float3 \<Rightarrow> float3 \<Rightarrow> float3 \<Rightarrow> float3" where
  "faceforward n i nref = scale3 (copysign1 (dot i nref)) n"

text \<open>\<^verbatim>\<open>lerp(a, b, t)\<close> is \<^verbatim>\<open>a + t * (b - a)\<close>.\<close>

definition lerp :: "float3 \<Rightarrow> float3 \<Rightarrow> real \<Rightarrow> float3" where
  "lerp a b t = add3 a (scale3 t (sub3 b a))"

text \<open>\<^verbatim>\<open>clamp(f, a, b)\<close> is \<^verbatim>\<open>fmaxf(a, fminf(f, b))\<close>.\<close>

definition clamp :: "real \<Rightarrow> real \<Rightarrow> real \<Rightarrow> real" where
  "clamp f a b = max a (min f b)"

subsection \<open>The random stream\<close>

type_synonym seed_t = "32 word"

text \<open>
  \<^verbatim>\<open>rnd(unsigned int &seed)\<close> returns a float and advances the seed it is given by
  reference: a function from the seed to the float and the new seed.
\<close>

type_synonym rnd_t = "seed_t \<Rightarrow> real \<times> seed_t"

definition rng :: "rnd_t \<Rightarrow> seed_t \<Rightarrow> real \<times> seed_t" where
  "rng rnd s = (case rnd s of (r, s') \<Rightarrow> (r * 2 - 1, s'))"

text \<open>
  \<^verbatim>\<open>shoot_ray_hemisphere\<close> of \<^verbatim>\<open>shader.cu\<close>. The three calls of \<^verbatim>\<open>rng\<close> are arguments
  of one call; they are taken from left to right.
\<close>

definition shoot_ray_hemisphere :: "rnd_t \<Rightarrow> float3 \<Rightarrow> seed_t \<Rightarrow> float3 \<times> seed_t" where
  "shoot_ray_hemisphere rnd nrm s =
     (case rng rnd s of (a, s1) \<Rightarrow>
      case rng rnd s1 of (b, s2) \<Rightarrow>
      case rng rnd s2 of (c, s3) \<Rightarrow>
        let random_dir = normalize3 (make_float3 a b c)
        in (faceforward random_dir nrm random_dir, s3))"

subsection \<open>Scene data and the path state\<close>

record Material =
  diffuse_color :: float3
  emission_color :: float3
  emit :: bool

text \<open>
  \<^verbatim>\<open>struct Intersection\<close>. The field \<^verbatim>\<open>done\<close> is \<open>done_flag\<close> here, \<open>done\<close> being a
  word of the proof language.
\<close>

record Intersection =
  material :: Material
  normal :: float3
  xyz :: float3
  mask_color :: float3
  accum_color :: float3
  hit :: bool
  done_flag :: bool
  seed :: seed_t

text \<open>
  A declaration \<^verbatim>\<open>Intersection intersection;\<close> runs the default member initialisers
  and leaves \<^verbatim>\<open>material\<close>, \<^verbatim>\<open>normal\<close>, \<^verbatim>\<open>xyz\<close> and \<^verbatim>\<open>seed\<close> as the memory holds them:
  the argument \<open>u\<close> is that memory.
\<close>

definition Intersection_decl :: "Intersection \<Rightarrow> Intersection" where
  "Intersection_decl u =
     u\<lparr>mask_color := splat3 1, accum_color := splat3 0, hit := False, done_flag := False\<rparr>"

text \<open>
  \<^verbatim>\<open>HitGroupData\<close>, the record of the hit program: the material and the vertex arrays
  (pointers, indexed without a bound). \<^verbatim>\<open>shader2.cu\<close> reads \<^verbatim>\<open>vertices\<close> through
  \<^verbatim>\<open>make_float3\<close> and has no use of \<^verbatim>\<open>normals\<close>.
\<close>

record HitGroupData =
  hg_material :: Material
  vertices :: "nat \<Rightarrow> float3"
  normals :: "nat \<Rightarrow> float3"

text \<open>
  What \<^verbatim>\<open>optixTrace\<close> hands to a closest-hit program: the record of the hit group,
  \<^verbatim>\<open>optixGetPrimitiveIndex()\<close> (an index into the vertex arrays, a natural number here)
  and \<^verbatim>\<open>optixGetRayTmax()\<close>, the distance of the hit.
\<close>

record Hit =
  rt_data :: HitGroupData
  prim_idx :: nat
  ray_tmax :: real

text \<open>
  The traversable handle. A radiance ray (\<^verbatim>\<open>OPTIX_RAY_FLAG_NONE\<close>) reports the closest
  hit; an occlusion ray (\<^verbatim>\<open>OPTIX_RAY_FLAG_TERMINATE_ON_FIRST_HIT\<close>) reports the first hit
  the traversal finds. The arguments are origin, direction, \<^verbatim>\<open>tmin\<close> and \<^verbatim>\<open>tmax\<close>.
  \<open>bg_color\<close> is the \<^verbatim>\<open>MissData\<close> of the radiance miss program.
\<close>

record Scene =
  radiance_hit :: "float3 \<Rightarrow> float3 \<Rightarrow> real \<Rightarrow> real \<Rightarrow> Hit option"
  occlusion_hit :: "float3 \<Rightarrow> float3 \<Rightarrow> real \<Rightarrow> real \<Rightarrow> Hit option"
  bg_color :: float4

subsection \<open>Occlusion programs\<close>

definition miss_occlusion :: "Intersection \<Rightarrow> Intersection" where
  "miss_occlusion intersection = intersection\<lparr>hit := False\<rparr>"

definition closesthit_occlusion :: "HitGroupData \<Rightarrow> Intersection \<Rightarrow> Intersection" where
  "closesthit_occlusion rt intersection =
     (if emit (hg_material rt)
      then intersection\<lparr>material := hg_material rt, hit := True\<rparr>
      else intersection)"

definition trace_occlusion ::
  "Scene \<Rightarrow> float3 \<Rightarrow> float3 \<Rightarrow> real \<Rightarrow> real \<Rightarrow> Intersection \<Rightarrow> Intersection" where
  "trace_occlusion hdl ray_origin ray_direction tmin tmax isec =
     (case occlusion_hit hdl ray_origin ray_direction tmin tmax of
        None \<Rightarrow> miss_occlusion isec
      | Some h \<Rightarrow> closesthit_occlusion (rt_data h) isec)"

subsection \<open>Next-event estimation, \<^verbatim>\<open>shader.cu\<close>\<close>

definition count :: nat where
  "count = 7"

text \<open>
  The loop of \<^verbatim>\<open>shoot_ray_to_light\<close>, entered with the loop variable at \<open>i\<close>. It returns
  the radiance, the \<^verbatim>\<open>Intersection\<close> behind the pointer (its seed has advanced) and
  the probes it has issued: the direction of each occlusion ray and the state that came
  back from it. \<open>u\<close> is the memory under the local \<^verbatim>\<open>temp\<close>.
\<close>

function shoot_ray_to_light_from ::
  "rnd_t \<Rightarrow> Scene \<Rightarrow> Intersection \<Rightarrow> nat \<Rightarrow> Intersection
     \<Rightarrow> float3 \<times> Intersection \<times> (float3 \<times> Intersection) list" where
  "shoot_ray_to_light_from rnd hdl u i intersection =
     (if i < count then
        (case shoot_ray_hemisphere rnd (normal intersection) (seed intersection) of
           (dir, s') \<Rightarrow>
             let intersection' = intersection\<lparr>seed := s'\<rparr>;
                 temp = trace_occlusion hdl (xyz intersection') dir (1 / 10 ^ 6) (10 ^ 16)
                          (Intersection_decl u)
             in if hit temp
                then (scale3 (clamp (dot (normal intersection') dir) 0 1)
                        (emission_color (material temp)),
                      intersection', [(dir, temp)])
                else (case shoot_ray_to_light_from rnd hdl u (i + 1) intersection' of
                        (c, fin, probes) \<Rightarrow> (c, fin, (dir, temp) # probes)))
      else (splat3 0, intersection, []))"
  by pat_completeness auto
termination
  by (relation "measure (\<lambda>(rnd, hdl, u, i, intersection). count - i)") auto

definition shoot_ray_to_light ::
  "rnd_t \<Rightarrow> Scene \<Rightarrow> Intersection \<Rightarrow> Intersection
     \<Rightarrow> float3 \<times> Intersection \<times> (float3 \<times> Intersection) list" where
  "shoot_ray_to_light rnd hdl u intersection = shoot_ray_to_light_from rnd hdl u 0 intersection"

subsection \<open>Next-event estimation, \<^verbatim>\<open>shader2.cu\<close>\<close>

text \<open>
  \<^verbatim>\<open>shoot_ray_hemisphere\<close> of \<^verbatim>\<open>shader2.cu\<close> draws through the seed of the state it is
  given, face-forwards the raw vector and normalises last.
\<close>

definition shoot_ray_hemisphere2 :: "rnd_t \<Rightarrow> Intersection \<Rightarrow> float3 \<times> Intersection" where
  "shoot_ray_hemisphere2 rnd intersection =
     (case rng rnd (seed intersection) of (a, s1) \<Rightarrow>
      case rng rnd s1 of (b, s2) \<Rightarrow>
      case rng rnd s2 of (c, s3) \<Rightarrow>
        let random_dir = make_float3 a b c
        in (normalize3 (faceforward random_dir (normal intersection) random_dir),
            intersection\<lparr>seed := s3\<rparr>))"

text \<open>
  \<^verbatim>\<open>shoot_ray_to_light\<close> of \<^verbatim>\<open>shader2.cu\<close> has no local state: the occlusion ray carries
  the pointer to the state of the radiance path, and the loop reads \<^verbatim>\<open>hit\<close> and
  \<^verbatim>\<open>material\<close> from it.
\<close>

function shoot_ray_to_light2_from ::
  "rnd_t \<Rightarrow> Scene \<Rightarrow> nat \<Rightarrow> Intersection
     \<Rightarrow> float3 \<times> Intersection \<times> (float3 \<times> Intersection) list" where
  "shoot_ray_to_light2_from rnd hdl i intersection =
     (if i < count then
        (case shoot_ray_hemisphere2 rnd intersection of
           (dir, intersection') \<Rightarrow>
             let probed = trace_occlusion hdl (xyz intersection') dir (1 / 100) (10 ^ 16)
                            intersection'
             in if hit probed
                then (scale3 (clamp (dot (normal probed) dir) 0 1)
                        (emission_color (material probed)),
                      probed, [(dir, probed)])
                else (case shoot_ray_to_light2_from rnd hdl (i + 1) probed of
                        (c, fin, probes) \<Rightarrow> (c, fin, (dir, probed) # probes)))
      else (splat3 0, intersection, []))"
  by pat_completeness auto
termination
  by (relation "measure (\<lambda>(rnd, hdl, i, intersection). count - i)") auto

definition shoot_ray_to_light2 ::
  "rnd_t \<Rightarrow> Scene \<Rightarrow> Intersection \<Rightarrow> float3 \<times> Intersection \<times> (float3 \<times> Intersection) list" where
  "shoot_ray_to_light2 rnd hdl intersection = shoot_ray_to_light2_from rnd hdl 0 intersection"

subsection \<open>Radiance programs, \<^verbatim>\<open>shader.cu\<close>\<close>

definition miss_radiance :: "float4 \<Rightarrow> Intersection \<Rightarrow> Intersection" where
  "miss_radiance bg intersection =
     intersection\<lparr>done_flag := True,
                   accum_color := add3 (accum_color intersection)
                                    (mul3 (xyz4 bg) (mask_color intersection))\<rparr>"

definition barycentric_normal ::
  "float3 \<Rightarrow> float3 \<Rightarrow> float3 \<Rightarrow> float3 \<Rightarrow> float3 \<Rightarrow> float3 \<Rightarrow> float3 \<Rightarrow> float3" where
  "barycentric_normal hit_point n1 n2 n3 v1 v2 v3 =
     (let edge1 = sub3 v2 v1;
          edge2 = sub3 v3 v1;
          i = sub3 hit_point v1;
          d00 = dot edge1 edge1;
          d01 = dot edge1 edge2;
          d11 = dot edge2 edge2;
          d20 = dot i edge1;
          d21 = dot i edge2;
          denom = d00 * d11 - d01 * d01;
          w = (d00 * d21 - d01 * d20) / denom;
          v = (d11 * d20 - d01 * d21) / denom;
          u = 1 - v - w
      in add3 (add3 (scale3 u n1) (scale3 v n2)) (scale3 w n3))"

text \<open>
  \<^verbatim>\<open>__closesthit__radiance\<close>. \<^verbatim>\<open>optixGetWorldRayOrigin()\<close> and
  \<^verbatim>\<open>optixGetWorldRayDirection()\<close> are the origin and direction of the traced ray. The
  probes of the light sampler are not part of the result.
\<close>

definition closesthit_radiance ::
  "rnd_t \<Rightarrow> Scene \<Rightarrow> Intersection \<Rightarrow> Hit \<Rightarrow> float3 \<Rightarrow> float3 \<Rightarrow> Intersection
     \<Rightarrow> Intersection" where
  "closesthit_radiance rnd hdl u h ray_origin ray_dir intersection =
     (let rt = rt_data h in
      if emit (hg_material rt)
      then intersection\<lparr>accum_color := add3 (accum_color intersection)
                           (mul3 (emission_color (hg_material rt)) (mask_color intersection)),
                         done_flag := True\<rparr>
      else
        let vert_idx_offset = prim_idx h * 3;
            p = add3 ray_origin (scale3 (ray_tmax h) ray_dir);
            v1 = vertices rt (vert_idx_offset + 0);
            v2 = vertices rt (vert_idx_offset + 1);
            v3 = vertices rt (vert_idx_offset + 2);
            n1 = normals rt (vert_idx_offset + 0);
            n2 = normals rt (vert_idx_offset + 1);
            n3 = normals rt (vert_idx_offset + 2);
            st = intersection\<lparr>xyz := p, normal := barycentric_normal p n1 n2 n3 v1 v2 v3\<rparr>;
            st' = st\<lparr>mask_color := mul3 (mask_color st) (diffuse_color (hg_material rt))\<rparr>
        in case shoot_ray_to_light rnd hdl u st' of
             (c, st'', probes) \<Rightarrow>
               st''\<lparr>accum_color := add3 (accum_color st'') (mul3 c (mask_color st''))\<rparr>)"

definition trace_radiance ::
  "rnd_t \<Rightarrow> Scene \<Rightarrow> Intersection \<Rightarrow> float3 \<Rightarrow> float3 \<Rightarrow> real \<Rightarrow> real \<Rightarrow> Intersection
     \<Rightarrow> Intersection" where
  "trace_radiance rnd hdl u ray_origin ray_direction tmin tmax isec =
     (case radiance_hit hdl ray_origin ray_direction tmin tmax of
        None \<Rightarrow> miss_radiance (bg_color hdl) isec
      | Some h \<Rightarrow> closesthit_radiance rnd hdl u h ray_origin ray_direction isec)"

subsection \<open>Radiance programs, \<^verbatim>\<open>shader2.cu\<close>\<close>

definition barycentric_normal2 :: "Intersection \<Rightarrow> float3 \<Rightarrow> float3 \<Rightarrow> float3 \<Rightarrow> float3" where
  "barycentric_normal2 intersection v1 v2 v3 =
     (let edge1 = sub3 v2 v1;
          edge2 = sub3 v3 v1;
          i = sub3 (xyz intersection) v1;
          d00 = dot edge1 edge1;
          d01 = dot edge1 edge2;
          d11 = dot edge2 edge2;
          d20 = dot i edge1;
          d21 = dot i edge2;
          denom = d00 * d11 - d01 * d01;
          v = (d11 * d20 - d01 * d21) / denom;
          w = (d00 * d21 - d01 * d20) / denom;
          u = 1 - v - w
      in scale3 (v + w + u) (normal intersection))"

definition closesthit_radiance2 ::
  "rnd_t \<Rightarrow> Scene \<Rightarrow> Hit \<Rightarrow> float3 \<Rightarrow> float3 \<Rightarrow> Intersection \<Rightarrow> Intersection" where
  "closesthit_radiance2 rnd hdl h ray_origin ray_dir intersection =
     (let rt = rt_data h in
      if emit (hg_material rt)
      then intersection\<lparr>accum_color := add3 (accum_color intersection)
                           (mul3 (emission_color (hg_material rt)) (mask_color intersection)),
                         done_flag := True\<rparr>
      else
        let st = intersection\<lparr>mask_color :=
                    mul3 (mask_color intersection) (diffuse_color (hg_material rt))\<rparr>;
            vert_idx_offset = prim_idx h * 3;
            v1 = vertices rt (vert_idx_offset + 0);
            v2 = vertices rt (vert_idx_offset + 1);
            v3 = vertices rt (vert_idx_offset + 2);
            N_0 = normalize3 (cross (sub3 v2 v1) (sub3 v3 v1));
            st1 = st\<lparr>normal := faceforward N_0 (neg3 ray_dir) N_0\<rparr>;
            st2 = st1\<lparr>xyz := add3 ray_origin (scale3 (ray_tmax h) ray_dir)\<rparr>;
            st3 = st2\<lparr>normal := barycentric_normal2 st2 v1 v2 v3\<rparr>
        in case shoot_ray_to_light2 rnd hdl st3 of
             (c, st4, probes) \<Rightarrow>
               st4\<lparr>accum_color := add3 (accum_color st4) (mul3 c (mask_color st4))\<rparr>)"

definition trace_radiance2 ::
  "rnd_t \<Rightarrow> Scene \<Rightarrow> float3 \<Rightarrow> float3 \<Rightarrow> real \<Rightarrow> real \<Rightarrow> Intersection \<Rightarrow> Intersection" where
  "trace_radiance2 rnd hdl ray_origin ray_direction tmin tmax isec =
     (case radiance_hit hdl ray_origin ray_direction tmin tmax of
        None \<Rightarrow> miss_radiance (bg_color hdl) isec
      | Some h \<Rightarrow> closesthit_radiance2 rnd hdl h ray_origin ray_direction isec)"

subsection \<open>Ray generation\<close>

text \<open>
  \<^verbatim>\<open>Params\<close>, the launch parameters, with the fields \<^verbatim>\<open>__raygen__rg\<close> reads and writes.
  The buffers are device pointers indexed by the \<^verbatim>\<open>unsigned int image_index\<close>; a cell of
  the frame buffer is the packed colour \<^verbatim>\<open>make_color\<close> returns.
\<close>

record Params =
  width :: "32 word"
  height :: "32 word"
  eye :: float3
  U :: float3
  V :: float3
  W :: float3
  subframe_index :: "32 word"
  samples_per_launch :: "32 word"
  handle :: Scene
  accum_buffer :: "32 word \<Rightarrow> float4"
  frame_buffer :: "32 word \<Rightarrow> 32 word"

definition nb_bounces :: nat where
  "nb_bounces = 3"

text \<open>
  The bounce loop of \<^verbatim>\<open>shader.cu\<close>, entered with the loop variable at \<open>j\<close> and the
  locals \<^verbatim>\<open>ray_origin\<close>, \<^verbatim>\<open>ray_direction\<close>, \<^verbatim>\<open>seed\<close> and \<^verbatim>\<open>intersection\<close>. It returns the
  seed and the intersection at the exit, and the state that came back from each
  \<^verbatim>\<open>trace_radiance\<close>, in the order of the calls.
\<close>

function bounce_from ::
  "rnd_t \<Rightarrow> Scene \<Rightarrow> Intersection \<Rightarrow> nat \<Rightarrow> float3 \<Rightarrow> float3 \<Rightarrow> seed_t \<Rightarrow> Intersection
     \<Rightarrow> seed_t \<times> Intersection \<times> Intersection list" where
  "bounce_from rnd hdl u j ray_origin ray_direction s intersection =
     (if j < nb_bounces then
        let traced = trace_radiance rnd hdl u ray_origin ray_direction (1 / 10 ^ 6) (10 ^ 16)
                       (intersection\<lparr>done_flag := False\<rparr>)
        in if done_flag traced then (s, traced, [traced])
           else (case shoot_ray_hemisphere rnd (normal traced) s of
                   (dir, s') \<Rightarrow>
                     (case bounce_from rnd hdl u (j + 1) (xyz traced) dir (seed traced) traced of
                        (sf, fin, traces) \<Rightarrow> (sf, fin, traced # traces)))
      else (s, intersection, []))"
  by pat_completeness auto
termination
  by (relation "measure (\<lambda>(rnd, hdl, u, j, ray_origin, ray_direction, s, intersection).
         nb_bounces - j)") auto

text \<open>In \<^verbatim>\<open>shader2.cu\<close> the next direction is drawn through the seed of the intersection.\<close>

function bounce2_from ::
  "rnd_t \<Rightarrow> Scene \<Rightarrow> nat \<Rightarrow> float3 \<Rightarrow> float3 \<Rightarrow> Intersection
     \<Rightarrow> Intersection \<times> Intersection list" where
  "bounce2_from rnd hdl j ray_origin ray_direction intersection =
     (if j < nb_bounces then
        let traced = trace_radiance2 rnd hdl ray_origin ray_direction (1 / 100) (10 ^ 16)
                       (intersection\<lparr>done_flag := False\<rparr>)
        in if done_flag traced then (traced, [traced])
           else (case shoot_ray_hemisphere2 rnd traced of
                   (dir, traced') \<Rightarrow>
                     (case bounce2_from rnd hdl (j + 1) (xyz traced) dir traced' of
                        (fin, traces) \<Rightarrow> (fin, traced # traces)))
      else (intersection, []))"
  by pat_completeness auto
termination
  by (relation "measure (\<lambda>(rnd, hdl, j, ray_origin, ray_direction, intersection).
         nb_bounces - j)") auto

text \<open>
  The jitter of a sample: \<^verbatim>\<open>normalize(make_float2(rng(seed), rng(seed)))\<close> in
  \<^verbatim>\<open>shader.cu\<close>, \<^verbatim>\<open>make_float2(rng(seed), rng(seed))\<close> in \<^verbatim>\<open>shader2.cu\<close>.
\<close>

definition antialiasing_jitter :: "rnd_t \<Rightarrow> seed_t \<Rightarrow> float2 \<times> seed_t" where
  "antialiasing_jitter rnd s =
     (case rng rnd s of (a, s1) \<Rightarrow>
      case rng rnd s1 of (b, s2) \<Rightarrow> (normalize2 (make_float2 a b), s2))"

definition antialiasing_jitter2 :: "rnd_t \<Rightarrow> seed_t \<Rightarrow> float2 \<times> seed_t" where
  "antialiasing_jitter2 rnd s =
     (case rng rnd s of (a, s1) \<Rightarrow>
      case rng rnd s1 of (b, s2) \<Rightarrow> (make_float2 a b, s2))"

text \<open>
  The camera ray of a sample: \<^verbatim>\<open>d\<close> is
  \<^verbatim>\<open>make_float3((2.0f * idx2 + antialiasing_jitter) / size - 1.0f, 1.0f)\<close> and the
  direction \<^verbatim>\<open>normalize(d.x*U + d.y*V + W)\<close>.
\<close>

definition camera_direction :: "Params \<Rightarrow> 32 word \<Rightarrow> 32 word \<Rightarrow> float2 \<Rightarrow> float3" where
  "camera_direction params idx_x idx_y jitter =
     (let dx = (2 * real (unat idx_x) + f2x jitter) / real (unat (width params)) - 1;
          dy = (2 * real (unat idx_y) + f2y jitter) / real (unat (height params)) - 1
      in normalize3 (add3 (add3 (scale3 dx (U params)) (scale3 dy (V params))) (W params)))"

text \<open>
  One pass of the sample loop of \<^verbatim>\<open>shader.cu\<close>: from the running seed to the seed left
  for the next sample, the intersection of the sample and the radiance traces.
\<close>

definition sample_path ::
  "rnd_t \<Rightarrow> Params \<Rightarrow> Intersection \<Rightarrow> 32 word \<Rightarrow> 32 word \<Rightarrow> seed_t
     \<Rightarrow> seed_t \<times> Intersection \<times> Intersection list" where
  "sample_path rnd params u idx_x idx_y s =
     (let intersection = (Intersection_decl u)\<lparr>seed := s\<rparr> in
      case antialiasing_jitter rnd s of
        (jitter, s') \<Rightarrow>
          bounce_from rnd (handle params) u 0 (eye params)
            (camera_direction params idx_x idx_y jitter) s' intersection)"

definition sample_path2 ::
  "rnd_t \<Rightarrow> Params \<Rightarrow> Intersection \<Rightarrow> 32 word \<Rightarrow> 32 word \<Rightarrow> seed_t
     \<Rightarrow> seed_t \<times> Intersection \<times> Intersection list" where
  "sample_path2 rnd params u idx_x idx_y s =
     (let intersection = (Intersection_decl u)\<lparr>seed := s\<rparr> in
      case antialiasing_jitter2 rnd s of
        (jitter, s') \<Rightarrow>
          (case bounce2_from rnd (handle params) 0 (eye params)
                  (camera_direction params idx_x idx_y jitter) intersection of
             (fin, traces) \<Rightarrow> (s', fin, traces)))"

text \<open>
  The sample loop \<^verbatim>\<open>for (int i = 0; i < samples_per_launch; i++)\<close>, entered at \<open>i\<close> with
  the running seed and the running sum; \<open>path\<close> is the body, \<open>sample_path\<close> or
  \<open>sample_path2\<close> at the pixel.
\<close>

function samples_from ::
  "(seed_t \<Rightarrow> seed_t \<times> Intersection \<times> Intersection list) \<Rightarrow> int \<Rightarrow> nat \<Rightarrow> seed_t \<Rightarrow> float3
     \<Rightarrow> float3" where
  "samples_from path n i s acc =
     (if int i < n then
        (case path s of
           (s', fin, traces) \<Rightarrow> samples_from path n (i + 1) s' (add3 acc (accum_color fin)))
      else acc)"
  by pat_completeness auto
termination
  by (relation "measure (\<lambda>(path, n, i, s, acc). nat n - i)") auto

text \<open>
  The seed of a pixel in a frame: \<^verbatim>\<open>tea<4>(idx.y*size.x + idx.x, subframe_index)\<close>. The
  first argument is computed in \<^verbatim>\<open>float\<close> and converted to \<^verbatim>\<open>unsigned int\<close>.
\<close>

definition pixel_seed ::
  "(32 word \<Rightarrow> 32 word \<Rightarrow> seed_t) \<Rightarrow> Params \<Rightarrow> 32 word \<Rightarrow> 32 word \<Rightarrow> seed_t" where
  "pixel_seed tea4 params idx_x idx_y =
     tea4 (of_nat (nat \<lfloor>real (unat idx_y) * real (unat (width params)) + real (unat idx_x)\<rfloor>))
          (subframe_index params)"

text \<open>
  The local \<^verbatim>\<open>accum_color\<close> of \<^verbatim>\<open>__raygen__rg\<close> after the division by the number of
  samples: the estimate of the frame.
\<close>

definition frame_estimate ::
  "(seed_t \<Rightarrow> seed_t \<times> Intersection \<times> Intersection list) \<Rightarrow> Params \<Rightarrow> seed_t \<Rightarrow> float3" where
  "frame_estimate path params s =
     div3 (samples_from path (sint (samples_per_launch params)) 0 s (splat3 0))
          (real_of_int (sint (samples_per_launch params)))"

text \<open>
  The end of \<^verbatim>\<open>__raygen__rg\<close>: the blend with the cell of the accumulation buffer when
  \<^verbatim>\<open>subframe_index > 0\<close>. \<open>blend\<close> is the value of \<^verbatim>\<open>accum_color\<close> after the
  \<^verbatim>\<open>if\<close>, from the frame index, the cell and the estimate.
\<close>

definition blend :: "32 word \<Rightarrow> float4 \<Rightarrow> float3 \<Rightarrow> float3" where
  "blend sub_idx cell acc =
     (if 0 < sint sub_idx
      then let a = 1 / real_of_int (sint (sub_idx + 1));
               accum_color_prev = xyz4 cell
           in lerp accum_color_prev acc a
      else acc)"

definition raygen_store ::
  "(float3 \<Rightarrow> 32 word) \<Rightarrow> Params \<Rightarrow> 32 word \<Rightarrow> 32 word \<Rightarrow> float3 \<Rightarrow> Params" where
  "raygen_store make_color params idx_x idx_y acc =
     (let image_index = idx_y * width params + idx_x;
          acc' = blend (subframe_index params) (accum_buffer params image_index) acc
      in params\<lparr>accum_buffer := (accum_buffer params)(image_index := make_float4 acc' 1),
                frame_buffer := (frame_buffer params)(image_index := make_color acc')\<rparr>)"

definition raygen_rg ::
  "rnd_t \<Rightarrow> (32 word \<Rightarrow> 32 word \<Rightarrow> seed_t) \<Rightarrow> (float3 \<Rightarrow> 32 word) \<Rightarrow> Intersection \<Rightarrow> Params
     \<Rightarrow> 32 word \<Rightarrow> 32 word \<Rightarrow> Params" where
  "raygen_rg rnd tea4 make_color u params idx_x idx_y =
     raygen_store make_color params idx_x idx_y
       (frame_estimate (sample_path rnd params u idx_x idx_y) params
          (pixel_seed tea4 params idx_x idx_y))"

definition raygen_rg2 ::
  "rnd_t \<Rightarrow> (32 word \<Rightarrow> 32 word \<Rightarrow> seed_t) \<Rightarrow> (float3 \<Rightarrow> 32 word) \<Rightarrow> Intersection \<Rightarrow> Params
     \<Rightarrow> 32 word \<Rightarrow> 32 word \<Rightarrow> Params" where
  "raygen_rg2 rnd tea4 make_color u params idx_x idx_y =
     raygen_store make_color params idx_x idx_y
       (frame_estimate (sample_path2 rnd params u idx_x idx_y) params
          (pixel_seed tea4 params idx_x idx_y))"

subsection \<open>Concrete inputs\<close>

text \<open>
  A lamp, a grey wall and a triangle in the plane \<open>z = 0\<close>, for the evaluations below.
\<close>

definition lamp_material :: Material where
  "lamp_material = \<lparr>diffuse_color = splat3 0, emission_color = splat3 1, emit = True\<rparr>"

definition wall_material :: Material where
  "wall_material = \<lparr>diffuse_color = splat3 (1 / 2), emission_color = splat3 0, emit = False\<rparr>"

definition unit_triangle :: "nat \<Rightarrow> float3" where
  "unit_triangle k = (if k = 0 then make_float3 0 0 0
                      else if k = 1 then make_float3 1 0 0 else make_float3 0 1 0)"

definition hit_on :: "Material \<Rightarrow> Hit" where
  "hit_on m = \<lparr>rt_data = \<lparr>hg_material = m, vertices = unit_triangle,
                            normals = (\<lambda>k. make_float3 0 0 1)\<rparr>,
              prim_idx = 0, ray_tmax = 1\<rparr>"

text \<open>
  A scene in which an occlusion ray that leaves the origin meets the lamp first, and an
  occlusion ray that leaves any other point meets the wall first.
\<close>

definition lamp_then_wall :: Scene where
  "lamp_then_wall =
     \<lparr>radiance_hit = (\<lambda>ray_origin ray_direction tmin tmax. Some (hit_on wall_material)),
      occlusion_hit = (\<lambda>ray_origin ray_direction tmin tmax.
         Some (hit_on (if ray_origin = make_float3 0 0 0 then lamp_material else wall_material))),
      bg_color = make_float4 (splat3 0) 1\<rparr>"

definition first_state :: Intersection where
  "first_state = \<lparr>material = wall_material, normal = make_float3 0 0 1, xyz = make_float3 0 0 0,
      mask_color = splat3 1, accum_color = splat3 0, hit = False, done_flag = False, seed = 0\<rparr>"


text \<open>
  The vector \<^verbatim>\<open>make_float3(rng(seed), rng(seed), rng(seed))\<close> that both versions of
  \<^verbatim>\<open>shoot_ray_hemisphere\<close> draw, and the seed after the three draws.
\<close>

definition draw3 :: "rnd_t \<Rightarrow> seed_t \<Rightarrow> float3 \<times> seed_t" where
  "draw3 rnd s =
     (case rng rnd s of (a, s1) \<Rightarrow>
      case rng rnd s1 of (b, s2) \<Rightarrow>
      case rng rnd s2 of (c, s3) \<Rightarrow> (make_float3 a b c, s3))"

text \<open>
  A generator to evaluate the shaders with: the linear congruential generator with a
  24-bit output that the sample code of the OptiX SDK provides under the name
  \<^verbatim>\<open>rnd\<close>. It stands in for the absent \<^verbatim>\<open>random.h\<close> in closed statements only; every
  other statement is about an arbitrary \<open>rnd\<close>.
\<close>

definition lcg :: "seed_t \<Rightarrow> seed_t" where
  "lcg prev = 1664525 * prev + 1013904223"

definition lcg_rnd :: rnd_t where
  "lcg_rnd prev = (real (unat (and (lcg prev) 16777215)) / 16777216, lcg prev)"

text \<open>A state whose shading normal has length 2, with the seed at 7.\<close>

definition steep_state :: Intersection where
  "steep_state = first_state\<lparr>normal := make_float3 2 0 0, seed := 7\<rparr>"

text \<open>
  The shape of a run of the light sampler, read off the flags alone, for a budget of \<open>k\<close>
  probes: at least one probe and at most \<open>k\<close>; no probe before the last one came back
  with \<^verbatim>\<open>hit\<close> set; if the last one did, \<open>c\<close> is the emission colour of the material in
  the probed state, scaled by the clamped dot product; if it did not, all \<open>k\<close> probes
  were issued and \<open>c\<close> is zero. It says nothing on what the rays met: that is
  \<open>emitter_contract\<close> below.
\<close>

definition first_hit_contract ::
  "nat \<Rightarrow> float3 \<Rightarrow> float3 \<Rightarrow> (float3 \<times> Intersection) list \<Rightarrow> bool" where
  "first_hit_contract k nrm c probes =
     (probes \<noteq> [] \<and> length probes \<le> k \<and> list_all (\<lambda>p. \<not> hit (snd p)) (butlast probes) \<and>
      (if hit (snd (last probes))
       then c = scale3 (clamp (dot nrm (fst (last probes))) 0 1)
                  (emission_color (material (snd (last probes))))
       else c = splat3 0 \<and> length probes = k))"

text \<open>
  What the scene answers to an occlusion ray: whether the first thing the ray meets is an
  emitter.
\<close>

definition emitter_first :: "Scene \<Rightarrow> float3 \<Rightarrow> float3 \<Rightarrow> real \<Rightarrow> real \<Rightarrow> bool" where
  "emitter_first hdl ro rd tmin tmax =
     (case occlusion_hit hdl ro rd tmin tmax of
        None \<Rightarrow> False
      | Some h \<Rightarrow> emit (hg_material (rt_data h)))"

text \<open>
  A probe, the direction of an occlusion ray from \<open>ro\<close> with the state that came back,
  agrees with the scene: \<^verbatim>\<open>hit\<close> is set exactly when the ray met an emitter first, and
  then \<^verbatim>\<open>material\<close> is the material of that emitter.
\<close>

definition probe_agrees ::
  "Scene \<Rightarrow> float3 \<Rightarrow> real \<Rightarrow> real \<Rightarrow> float3 \<times> Intersection \<Rightarrow> bool" where
  "probe_agrees hdl ro tmin tmax p =
     (case occlusion_hit hdl ro (fst p) tmin tmax of
        None \<Rightarrow> hit (snd p) = False
      | Some h \<Rightarrow>
          hit (snd p) = emit (hg_material (rt_data h)) \<and>
          (if emit (hg_material (rt_data h)) then material (snd p) = hg_material (rt_data h)
           else True))"

text \<open>
  What the light sampler owes its caller, stated on the radiance \<open>c\<close> it returns, the
  probes it has issued from the shading point \<open>ro\<close> and the scene, for a budget of \<open>k\<close>
  probes and the shading normal \<open>nrm\<close>: it issues at least one probe and at most \<open>k\<close>;
  every probe agrees with the scene; no ray before the last one met an emitter first; if
  the last one did, \<open>c\<close> is the emission colour of that emitter, scaled by the dot
  product of normal and direction clamped to \<open>[0,1]\<close>; if it did not, all \<open>k\<close> probes
  were issued and \<open>c\<close> is zero.
\<close>

definition emitter_contract ::
  "nat \<Rightarrow> Scene \<Rightarrow> float3 \<Rightarrow> real \<Rightarrow> real \<Rightarrow> float3 \<Rightarrow> float3
     \<Rightarrow> (float3 \<times> Intersection) list \<Rightarrow> bool" where
  "emitter_contract k hdl ro tmin tmax nrm c probes =
     (probes \<noteq> [] \<and> length probes \<le> k \<and>
      list_all (probe_agrees hdl ro tmin tmax) probes \<and>
      list_all (\<lambda>p. emitter_first hdl ro (fst p) tmin tmax = False) (butlast probes) \<and>
      (case occlusion_hit hdl ro (fst (last probes)) tmin tmax of
         None \<Rightarrow> c = splat3 0 \<and> length probes = k
       | Some h \<Rightarrow>
           if emit (hg_material (rt_data h))
           then c = scale3 (clamp (dot nrm (fst (last probes))) 0 1)
                      (emission_color (hg_material (rt_data h)))
           else c = splat3 0 \<and> length probes = k))"

text \<open>
  Modelled from the spec: the host code that launches the frames is not among the
  sources; the spec has the frame index as a counter that starts at 0 and goes up by
  one with each launch. Successive launches for one pixel: the launch with
  \<^verbatim>\<open>subframe_index\<close> \<open>k\<close> ends in \<open>raygen_store\<close> with the estimate of that frame, and
  the next launch has the index \<open>k + 1\<close>. The list holds the estimates of the frames
  from \<open>k\<close> on.
\<close>

fun launch_frames ::
  "(float3 \<Rightarrow> 32 word) \<Rightarrow> Params \<Rightarrow> 32 word \<Rightarrow> 32 word \<Rightarrow> nat \<Rightarrow> float3 list \<Rightarrow> Params" where
  "launch_frames make_color params idx_x idx_y k [] = params"
| "launch_frames make_color params idx_x idx_y k (e # es) =
     launch_frames make_color
       (raygen_store make_color (params\<lparr>subframe_index := of_nat k\<rparr>) idx_x idx_y e)
       idx_x idx_y (Suc k) es"

text \<open>The arithmetic mean of a list of colours.\<close>

fun sum3 :: "float3 list \<Rightarrow> float3" where
  "sum3 [] = splat3 0"
| "sum3 (e # es) = add3 e (sum3 es)"

definition mean3 :: "float3 list \<Rightarrow> float3" where
  "mean3 es = div3 (sum3 es) (real (length es))"

text \<open>A grey of a given level, for the evaluation of the mean.\<close>

definition grey :: "real \<Rightarrow> float3" where
  "grey c = make_float3 c c c"

text \<open>
  A hit on the triangle above whose vertex normals differ from the face normal
  \<open>(0,0,1)\<close>, and launch parameters on the scene above.
\<close>

definition smooth_hit :: Hit where
  "smooth_hit = \<lparr>rt_data = \<lparr>hg_material = wall_material, vertices = unit_triangle,
        normals = (\<lambda>k. if k = 0 then make_float3 0 0 1
                        else if k = 1 then make_float3 (3 / 5) 0 (4 / 5)
                        else make_float3 0 (3 / 5) (4 / 5))\<rparr>,
      prim_idx = 0, ray_tmax = 1\<rparr>"

definition test_params :: Params where
  "test_params = \<lparr>width = 4, height = 4, eye = make_float3 0 0 (- 1),
      U = make_float3 1 0 0, V = make_float3 0 1 0, W = make_float3 0 0 1,
      subframe_index = 0, samples_per_launch = 1, handle = lamp_then_wall,
      accum_buffer = (\<lambda>i. make_float4 (splat3 0) 0), frame_buffer = (\<lambda>i. 0)\<rparr>"

text \<open>
  What the bounce loop owes, stated on the intersection \<open>fin\<close> it leaves and the states
  that came back from its radiance queries, for a budget of \<open>k\<close> bounces: at least one
  query and at most \<open>k\<close>; no query before the last came back with \<^verbatim>\<open>done\<close> set; the last
  one did, or all \<open>k\<close> queries were made; and the radiance of \<open>fin\<close> is the radiance
  after the last query.
\<close>

definition bounce_contract :: "nat \<Rightarrow> Intersection \<Rightarrow> Intersection list \<Rightarrow> bool" where
  "bounce_contract k fin traces =
     (traces \<noteq> [] \<and> length traces \<le> k \<and>
      list_all (\<lambda>t. \<not> done_flag t) (butlast traces) \<and>
      (done_flag (last traces) \<or> length traces = k) \<and>
      accum_color fin = accum_color (last traces))"

text \<open>Order on colours, channel by channel, and lists of colours that never increase.\<close>

definition le3 :: "float3 \<Rightarrow> float3 \<Rightarrow> bool" where
  "le3 a b = (f3x a \<le> f3x b \<and> f3y a \<le> f3y b \<and> f3z a \<le> f3z b)"

fun nonincreasing :: "float3 list \<Rightarrow> bool" where
  "nonincreasing (a # b # r) = (le3 b a \<and> nonincreasing (b # r))"
| "nonincreasing r = True"

text \<open>Every surface a radiance ray can meet has a diffuse colour with channels in \<open>[0,1]\<close>.\<close>

definition albedo_in_unit :: "Scene \<Rightarrow> bool" where
  "albedo_in_unit hdl =
     (\<forall>ray_origin ray_direction tmin tmax h.
        radiance_hit hdl ray_origin ray_direction tmin tmax = Some h \<longrightarrow>
          le3 (splat3 0) (diffuse_color (hg_material (rt_data h))) \<and>
          le3 (diffuse_color (hg_material (rt_data h))) (splat3 1))"

text \<open>
  The triangle of a hit: vertex \<open>k\<close> and vertex normal \<open>k\<close> of primitive \<^verbatim>\<open>prim_idx\<close>, the
  two edges from vertex 0, the determinant of their dot products (\<^verbatim>\<open>denom\<close> in
  \<^verbatim>\<open>barycentric_normal\<close>) and the point of the hit.
\<close>

definition tri_v :: "Hit \<Rightarrow> nat \<Rightarrow> float3" where
  "tri_v h k = vertices (rt_data h) (prim_idx h * 3 + k)"

definition tri_n :: "Hit \<Rightarrow> nat \<Rightarrow> float3" where
  "tri_n h k = normals (rt_data h) (prim_idx h * 3 + k)"

definition tri_e1 :: "Hit \<Rightarrow> float3" where
  "tri_e1 h = sub3 (tri_v h 1) (tri_v h 0)"

definition tri_e2 :: "Hit \<Rightarrow> float3" where
  "tri_e2 h = sub3 (tri_v h 2) (tri_v h 0)"

definition tri_denom :: "Hit \<Rightarrow> real" where
  "tri_denom h = dot (tri_e1 h) (tri_e1 h) * dot (tri_e2 h) (tri_e2 h)
                 - dot (tri_e1 h) (tri_e2 h) * dot (tri_e1 h) (tri_e2 h)"

definition hit_point :: "float3 \<Rightarrow> float3 \<Rightarrow> Hit \<Rightarrow> float3" where
  "hit_point ray_origin ray_dir h = add3 ray_origin (scale3 (ray_tmax h) ray_dir)"

text \<open>
  Two states of a path that differ at most where the path never looks: they agree on
  mask, radiance, flags and seed, and on the material when \<^verbatim>\<open>hit\<close> is set. Two states
  at the same shading point agree on normal and position.
\<close>

definition same_path :: "Intersection \<Rightarrow> Intersection \<Rightarrow> bool" where
  "same_path a b =
     (mask_color a = mask_color b \<and> accum_color a = accum_color b \<and> hit a = hit b \<and>
      done_flag a = done_flag b \<and> seed a = seed b \<and>
      (if hit a then material a = material b else True))"

definition same_point :: "Intersection \<Rightarrow> Intersection \<Rightarrow> bool" where
  "same_point a b = (normal a = normal b \<and> xyz a = xyz b)"

text \<open>
  The state in which the light sampler is called on a diffuse hit, in \<^verbatim>\<open>shader.cu\<close> and
  in \<^verbatim>\<open>shader2.cu\<close>.
\<close>

definition shade_point :: "Hit \<Rightarrow> float3 \<Rightarrow> float3 \<Rightarrow> Intersection \<Rightarrow> Intersection" where
  "shade_point h ro rd st =
     st\<lparr>xyz := hit_point ro rd h,
        normal := barycentric_normal (hit_point ro rd h) (tri_n h 0) (tri_n h 1) (tri_n h 2)
                    (tri_v h 0) (tri_v h 1) (tri_v h 2),
        mask_color := mul3 (mask_color st) (diffuse_color (hg_material (rt_data h)))\<rparr>"

definition shade_point2 :: "Hit \<Rightarrow> float3 \<Rightarrow> float3 \<Rightarrow> Intersection \<Rightarrow> Intersection" where
  "shade_point2 h ro rd st =
     st\<lparr>mask_color := mul3 (mask_color st) (diffuse_color (hg_material (rt_data h))),
        normal := faceforward (normalize3 (cross (tri_e1 h) (tri_e2 h))) (neg3 rd)
                    (normalize3 (cross (tri_e1 h) (tri_e2 h))),
        xyz := hit_point ro rd h\<rparr>"

text \<open>
  Two launches with the same image size, camera, frame index, sample count and scene;
  the buffers may differ. \<open>other_buffers\<close> is \<open>test_params\<close> with other buffers.
\<close>

definition same_launch :: "Params \<Rightarrow> Params \<Rightarrow> bool" where
  "same_launch p p' =
     (width p = width p' \<and> height p = height p' \<and> eye p = eye p' \<and> U p = U p' \<and>
      V p = V p' \<and> W p = W p' \<and> subframe_index p = subframe_index p' \<and>
      samples_per_launch p = samples_per_launch p' \<and> handle p = handle p')"

definition other_buffers :: Params where
  "other_buffers = test_params\<lparr>accum_buffer := (\<lambda>i. make_float4 (splat3 1) 1),
                                frame_buffer := (\<lambda>i. 7)\<rparr>"

text \<open>A scene in which every radiance ray meets a surface that does not emit.\<close>

definition all_diffuse :: "Scene \<Rightarrow> bool" where
  "all_diffuse hdl =
     (\<forall>ray_origin ray_direction tmin tmax.
        \<exists>h. radiance_hit hdl ray_origin ray_direction tmin tmax = Some h \<and>
            emit (hg_material (rt_data h)) = False)"

section \<open>Properties\<close>

declare shoot_ray_to_light_from.simps [simp del]
declare shoot_ray_to_light2_from.simps [simp del]
declare bounce_from.simps [simp del]
declare bounce2_from.simps [simp del]
declare samples_from.simps [simp del]

subsection \<open>The occlusion query\<close>

lemma trace_occlusion_fields:
  "accum_color (trace_occlusion hdl ro rd tmin tmax st) = accum_color st"
  "mask_color (trace_occlusion hdl ro rd tmin tmax st) = mask_color st"
  "done_flag (trace_occlusion hdl ro rd tmin tmax st) = done_flag st"
  "seed (trace_occlusion hdl ro rd tmin tmax st) = seed st"
  "normal (trace_occlusion hdl ro rd tmin tmax st) = normal st"
  "xyz (trace_occlusion hdl ro rd tmin tmax st) = xyz st"
  by (simp_all add: trace_occlusion_def miss_occlusion_def closesthit_occlusion_def
        split: option.splits)

lemma shoot_ray_hemisphere2_seed_only:
  "shoot_ray_hemisphere2 rnd st = (dir, st') \<Longrightarrow> \<exists>s. st' = st\<lparr>seed := s\<rparr>"
  by (auto simp: shoot_ray_hemisphere2_def Let_def split: prod.splits)

text \<open>One pass of the loop of \<^verbatim>\<open>shader2.cu\<close>.\<close>

lemma shoot_ray_to_light2_from_unfold:
  assumes "i < count" and "shoot_ray_hemisphere2 rnd st = (d, st1)"
    and "probed = trace_occlusion hdl (xyz st1) d (1 / 100) (10 ^ 16) st1"
  shows "shoot_ray_to_light2_from rnd hdl i st =
    (if hit probed
     then (scale3 (clamp (dot (normal probed) d) 0 1) (emission_color (material probed)),
           probed, [(d, probed)])
     else (case shoot_ray_to_light2_from rnd hdl (i + 1) probed of
             (c, fin, probes) \<Rightarrow> (c, fin, (d, probed) # probes)))"
  by (subst shoot_ray_to_light2_from.simps) (simp add: assms Let_def)

lemma shoot_ray_to_light2_first_hit:
  assumes "shoot_ray_hemisphere2 rnd st = (d, st1)"
    and "probed = trace_occlusion hdl (xyz st1) d (1 / 100) (10 ^ 16) st1"
    and "hit probed"
  shows "shoot_ray_to_light2 rnd hdl st =
    (scale3 (clamp (dot (normal probed) d) 0 1) (emission_color (material probed)),
     probed, [(d, probed)])"
  unfolding shoot_ray_to_light2_def
  using shoot_ray_to_light2_from_unfold[OF _ assms(1,2), of 0] assms(3) by (simp add: count_def)

text \<open>
  The light sampler of \<^verbatim>\<open>shader2.cu\<close> changes \<^verbatim>\<open>hit\<close>, \<^verbatim>\<open>material\<close> and \<^verbatim>\<open>seed\<close> of the
  state of the radiance path and nothing else.
\<close>

lemma shoot_ray_to_light2_from_fields:
  "shoot_ray_to_light2_from rnd hdl i st = (c, st', probes) \<Longrightarrow>
     accum_color st' = accum_color st \<and> mask_color st' = mask_color st \<and>
     done_flag st' = done_flag st \<and> normal st' = normal st \<and> xyz st' = xyz st"
proof (induction rnd hdl i st arbitrary: c st' probes rule: shoot_ray_to_light2_from.induct)
  case (1 rnd hdl i st)
  show ?case
  proof (cases "i < count")
    case False
    with "1.prems" show ?thesis
      by (subst (asm) shoot_ray_to_light2_from.simps) simp
  next
    case True
    obtain dir st1 where h: "shoot_ray_hemisphere2 rnd st = (dir, st1)"
      by (cases "shoot_ray_hemisphere2 rnd st")
    define probed where "probed = trace_occlusion hdl (xyz st1) dir (1 / 100) (10 ^ 16) st1"
    from shoot_ray_hemisphere2_seed_only[OF h] obtain s where st1: "st1 = st\<lparr>seed := s\<rparr>"
      by blast
    have pf: "accum_color probed = accum_color st \<and> mask_color probed = mask_color st \<and>
       done_flag probed = done_flag st \<and> normal probed = normal st \<and> xyz probed = xyz st"
      unfolding probed_def by (simp add: trace_occlusion_fields st1)
    note step = shoot_ray_to_light2_from_unfold[OF True h probed_def]
    show ?thesis
    proof (cases "hit probed")
      case True
      with step "1.prems" have "st' = probed" by simp
      with pf show ?thesis by simp
    next
      case False
      obtain c2 fin2 pr2
        where r: "shoot_ray_to_light2_from rnd hdl (i + 1) probed = (c2, fin2, pr2)"
        by (cases "shoot_ray_to_light2_from rnd hdl (i + 1) probed")
      from False step "1.prems" r have "st' = fin2" by simp
      moreover have "accum_color fin2 = accum_color probed \<and>
          mask_color fin2 = mask_color probed \<and> done_flag fin2 = done_flag probed \<and>
          normal fin2 = normal probed \<and> xyz fin2 = xyz probed"
        using "1.IH"[OF \<open>i < count\<close> h[symmetric] probed_def False r] .
      ultimately show ?thesis using pf by simp
    qed
  qed
qed

text \<open>
  C10. The occlusion programs write \<^verbatim>\<open>hit\<close> and \<^verbatim>\<open>material\<close> and no other field: the
  state after an occlusion query is the state before it with at most these two fields
  replaced, so \<^verbatim>\<open>accum_color\<close>, \<^verbatim>\<open>mask_color\<close>, \<^verbatim>\<open>done\<close> and \<^verbatim>\<open>seed\<close> are as they
  were. The light sampler of \<^verbatim>\<open>shader2.cu\<close>, which probes with the state of the radiance
  path itself, returns that state with its accumulated radiance, mask and termination
  flag intact.
\<close>

theorem occlusion_query_frame:
  "miss_occlusion st = st\<lparr>hit := False\<rparr> \<and>
   closesthit_occlusion rt st = st\<lparr>material := material (closesthit_occlusion rt st),
                                   hit := hit (closesthit_occlusion rt st)\<rparr> \<and>
   trace_occlusion hdl ro rd tmin tmax st =
     st\<lparr>material := material (trace_occlusion hdl ro rd tmin tmax st),
        hit := hit (trace_occlusion hdl ro rd tmin tmax st)\<rparr> \<and>
   accum_color (trace_occlusion hdl ro rd tmin tmax st) = accum_color st \<and>
   mask_color (trace_occlusion hdl ro rd tmin tmax st) = mask_color st \<and>
   done_flag (trace_occlusion hdl ro rd tmin tmax st) = done_flag st \<and>
   seed (trace_occlusion hdl ro rd tmin tmax st) = seed st \<and>
   accum_color (fst (snd (shoot_ray_to_light2 rnd hdl st))) = accum_color st \<and>
   mask_color (fst (snd (shoot_ray_to_light2 rnd hdl st))) = mask_color st \<and>
   done_flag (fst (snd (shoot_ray_to_light2 rnd hdl st))) = done_flag st"
proof -
  have m: "miss_occlusion st = st\<lparr>hit := False\<rparr>"
    by (simp add: miss_occlusion_def)
  have c: "closesthit_occlusion rt st = st\<lparr>material := material (closesthit_occlusion rt st),
                                   hit := hit (closesthit_occlusion rt st)\<rparr>"
    by (simp add: closesthit_occlusion_def)
  have t: "trace_occlusion hdl ro rd tmin tmax st =
     st\<lparr>material := material (trace_occlusion hdl ro rd tmin tmax st),
        hit := hit (trace_occlusion hdl ro rd tmin tmax st)\<rparr>"
    by (simp add: trace_occlusion_def miss_occlusion_def closesthit_occlusion_def
          split: option.splits)
  obtain c st' probes where r: "shoot_ray_to_light2_from rnd hdl 0 st = (c, st', probes)"
    by (cases "shoot_ray_to_light2_from rnd hdl 0 st")
  from shoot_ray_to_light2_from_fields[OF r]
  have n: "accum_color (fst (snd (shoot_ray_to_light2 rnd hdl st))) = accum_color st \<and>
    mask_color (fst (snd (shoot_ray_to_light2 rnd hdl st))) = mask_color st \<and>
    done_flag (fst (snd (shoot_ray_to_light2 rnd hdl st))) = done_flag st"
    by (simp add: shoot_ray_to_light2_def r)
  from m c t n show ?thesis
    by (simp only: trace_occlusion_fields simp_thms)
qed

text \<open>
  C1, on \<^verbatim>\<open>shader2.cu\<close>. The state goes through the light sampler twice, as it does in
  two bounces of one path. At the first shading point, the origin, the probe meets the
  lamp and the sampler returns with \<^verbatim>\<open>hit\<close> set. At the second shading point the first
  probe meets the wall, which does not emit; \<^verbatim>\<open>__closesthit__occlusion\<close> writes nothing,
  the flag the sampler reads is still set, and the sampler returns after this one probe.
\<close>

theorem shader2_occlusion_stale_hit:
  "(let st1 = fst (snd (shoot_ray_to_light2 rnd lamp_then_wall first_state));
        st2 = st1\<lparr>xyz := make_float3 1 0 0\<rparr>;
        probes = snd (snd (shoot_ray_to_light2 rnd lamp_then_wall st2))
    in hit st1 \<and> length probes = 1 \<and> hit (snd (hd probes)) \<and>
       occlusion_hit lamp_then_wall (xyz st2) (fst (hd probes)) (1 / 100) (10 ^ 16)
         = Some (hit_on wall_material) \<and>
       emit (hg_material (rt_data (hit_on wall_material))) = False)"
proof -
  obtain d1 s1 where h1: "shoot_ray_hemisphere2 rnd first_state = (d1, s1)"
    by (cases "shoot_ray_hemisphere2 rnd first_state")
  from shoot_ray_hemisphere2_seed_only[OF h1]
  obtain a where s1: "s1 = first_state\<lparr>seed := a\<rparr>" by blast
  define p1 where "p1 = first_state\<lparr>seed := a, material := lamp_material, hit := True\<rparr>"
  have t1: "p1 = trace_occlusion lamp_then_wall (xyz s1) d1 (1 / 100) (10 ^ 16) s1"
    by (simp add: s1 p1_def trace_occlusion_def closesthit_occlusion_def
          lamp_then_wall_def first_state_def hit_on_def lamp_material_def)
  have "hit p1" by (simp add: p1_def)
  with shoot_ray_to_light2_first_hit[OF h1 t1]
  have r1: "fst (snd (shoot_ray_to_light2 rnd lamp_then_wall first_state)) = p1"
    by simp
  define q where "q = p1\<lparr>xyz := make_float3 1 0 0\<rparr>"
  obtain d2 s2 where h2: "shoot_ray_hemisphere2 rnd q = (d2, s2)"
    by (cases "shoot_ray_hemisphere2 rnd q")
  from shoot_ray_hemisphere2_seed_only[OF h2]
  obtain b where s2: "s2 = q\<lparr>seed := b\<rparr>" by blast
  have t2: "s2 = trace_occlusion lamp_then_wall (xyz s2) d2 (1 / 100) (10 ^ 16) s2"
    by (simp add: s2 q_def p1_def trace_occlusion_def closesthit_occlusion_def
          lamp_then_wall_def first_state_def hit_on_def wall_material_def)
  have "hit s2" by (simp add: s2 q_def p1_def)
  with shoot_ray_to_light2_first_hit[OF h2 t2]
  have r2: "snd (snd (shoot_ray_to_light2 rnd lamp_then_wall q)) = [(d2, s2)]"
    by simp
  show ?thesis
    by (simp add: Let_def r1 q_def[symmetric] r2 \<open>hit p1\<close> \<open>hit s2\<close>)
       (simp add: q_def lamp_then_wall_def hit_on_def wall_material_def)
qed

subsection \<open>Vector algebra\<close>

lemma dot_commute: "dot a b = dot b a"
  by (simp add: dot_def mult.commute)

lemma dot_scale3_left: "dot (scale3 s a) b = s * dot a b"
  by (simp add: dot_def scale3_def algebra_simps)

lemma dot_scale3_right: "dot a (scale3 s b) = s * dot a b"
  by (simp add: dot_def scale3_def algebra_simps)


lemma dot_self_nonneg: "0 \<le> dot v v"
  by (simp add: dot_def)




lemma copysign1_abs: "copysign1 x * x = \<bar>x\<bar>"
  by (simp add: copysign1_def)





lemma dot_faceforward: "dot (faceforward v n v) n = \<bar>dot n v\<bar>"
  by (simp add: faceforward_def dot_scale3_left copysign1_abs dot_commute[of v n])



lemma shoot_ray_hemisphere_draw3:
  "shoot_ray_hemisphere rnd nrm s =
     (faceforward (normalize3 (fst (draw3 rnd s))) nrm (normalize3 (fst (draw3 rnd s))),
      snd (draw3 rnd s))"
  by (simp add: shoot_ray_hemisphere_def draw3_def Let_def split: prod.splits)

lemma shoot_ray_hemisphere2_draw3:
  "shoot_ray_hemisphere2 rnd st =
     (normalize3 (faceforward (fst (draw3 rnd (seed st))) (normal st) (fst (draw3 rnd (seed st)))),
      st\<lparr>seed := snd (draw3 rnd (seed st))\<rparr>)"
  by (simp add: shoot_ray_hemisphere2_def draw3_def Let_def split: prod.splits)

subsection \<open>The generator used for evaluation\<close>

lemma unat_and_mask24: "unat (and (w :: 32 word) 16777215) \<le> 16777215"
proof -
  have "unat (and w 16777215) \<le> unat (16777215 :: 32 word)"
    by (rule word_and_le1 [THEN word_le_nat_alt [THEN iffD1]])
  then show ?thesis by simp
qed

lemma lcg_rnd_range: "0 \<le> fst (lcg_rnd s) \<and> fst (lcg_rnd s) \<le> 1"
proof -
  have "real (unat (and (lcg s) 16777215)) \<le> real 16777215"
    by (rule of_nat_mono) (rule unat_and_mask24)
  moreover have "0 \<le> real (unat (and (lcg s) 16777215))"
    by (rule of_nat_0_le_iff)
  ultimately show ?thesis by (simp add: lcg_rnd_def)
qed

lemma lcg_0: "lcg 0 = 1013904223" "lcg 1013904223 = 1196435762"
  by (simp_all add: lcg_def)

lemma lcg_7: "lcg 7 = 1025555898" "lcg 1025555898 = 3923423697" "lcg 3923423697 = 2630631676"
  by (simp_all add: lcg_def)

lemma draw3_lcg_7:
  "draw3 lcg_rnd 7 =
     (make_float3 (2145722 / 8388608 - 1) (14332369 / 8388608 - 1) (13385980 / 8388608 - 1),
      2630631676)"
  by (simp add: draw3_def rng_def lcg_rnd_def lcg_7)

subsection \<open>Hemisphere sampling\<close>



subsection \<open>The jitter of a sample\<close>

lemma rng_range:
  assumes "0 \<le> fst (rnd s) \<and> fst (rnd s) \<le> 1"
  shows "- 1 \<le> fst (rng rnd s) \<and> fst (rng rnd s) \<le> 1"
  using assms by (cases "rnd s") (simp add: rng_def)

lemma normalize2_unit:
  assumes "v \<noteq> make_float2 0 0"
  shows "dot2 (normalize2 v) (normalize2 v) = 1"
proof -
  have "dot2 v v \<noteq> 0"
  proof
    assume z: "dot2 v v = 0"
    have "0 \<le> f2x v * f2x v" "0 \<le> f2y v * f2y v" by simp_all
    with z have "f2x v * f2x v = 0 \<and> f2y v * f2y v = 0" unfolding dot2_def by linarith
    with assms show False by (cases v) simp
  qed
  moreover have "0 \<le> dot2 v v" by (simp add: dot2_def)
  ultimately have p: "0 < dot2 v v" by linarith
  define r where "r = 1 / sqrt (dot2 v v)"
  have "normalize2 v = make_float2 (f2x v * r) (f2y v * r)"
    by (simp add: normalize2_def r_def)
  then have "dot2 (normalize2 v) (normalize2 v) = dot2 v v * (r * r)"
    by (simp add: dot2_def algebra_simps)
  moreover have "r * r = 1 / dot2 v v"
    using p by (simp add: r_def)
  ultimately show ?thesis using p by simp
qed

lemma unit_square_bound:
  fixes x y :: real
  assumes "x * x + y * y = 1"
  shows "- 1 \<le> x \<and> x \<le> 1"
proof -
  have "0 \<le> y * y" by simp
  with assms have "x * x \<le> 1" by linarith
  then have "x\<^sup>2 \<le> 1" by (simp add: power2_eq_square)
  then have "\<bar>x\<bar> \<le> 1" by (simp add: abs_square_le_1)
  then show ?thesis by linarith
qed

lemma normalize2_range:
  assumes "v \<noteq> make_float2 0 0"
  shows "- 1 \<le> f2x (normalize2 v) \<and> f2x (normalize2 v) \<le> 1 \<and>
         - 1 \<le> f2y (normalize2 v) \<and> f2y (normalize2 v) \<le> 1"
proof -
  from normalize2_unit[OF assms]
  have u: "f2x (normalize2 v) * f2x (normalize2 v) + f2y (normalize2 v) * f2y (normalize2 v) = 1"
    by (simp add: dot2_def)
  then have "f2y (normalize2 v) * f2y (normalize2 v) + f2x (normalize2 v) * f2x (normalize2 v) = 1"
    by (simp add: add.commute)
  from unit_square_bound[OF u] unit_square_bound[OF this] show ?thesis by blast
qed

lemma jitter_lcg_0:
  "antialiasing_jitter lcg_rnd 0 =
     (normalize2 (make_float2 (7271263 / 8388608 - 1) (5253426 / 8388608 - 1)), 1196435762)"
  by (simp add: antialiasing_jitter_def rng_def lcg_rnd_def lcg_0)

text \<open>
  C7, as the two files have it. Let \<open>a\<close> and \<open>b\<close> be the two successive draws of
  \<^verbatim>\<open>rng\<close>, for a generator \<^verbatim>\<open>rnd\<close> with values in \<open>[0,1]\<close>. Both lie in \<open>[-1,1]\<close>. The
  jitter of \<^verbatim>\<open>shader2.cu\<close> is the pair \<open>(a, b)\<close>. The jitter of \<^verbatim>\<open>shader.cu\<close> is that pair
  normalised: unless both draws are zero, where the device divides by zero, each
  component lies in \<open>[-1,1]\<close> and the two components lie on the unit circle.
\<close>

theorem jitter_offsets:
  assumes "\<forall>s. 0 \<le> fst (rnd s) \<and> fst (rnd s) \<le> 1"
  shows "(let a = fst (rng rnd s); s1 = snd (rng rnd s);
              b = fst (rng rnd s1); s2 = snd (rng rnd s1);
              j = normalize2 (make_float2 a b)
          in - 1 \<le> a \<and> a \<le> 1 \<and> - 1 \<le> b \<and> b \<le> 1 \<and>
             antialiasing_jitter2 rnd s = (make_float2 a b, s2) \<and>
             antialiasing_jitter rnd s = (j, s2) \<and>
             (make_float2 a b \<noteq> make_float2 0 0 \<longrightarrow>
                - 1 \<le> f2x j \<and> f2x j \<le> 1 \<and> - 1 \<le> f2y j \<and> f2y j \<le> 1 \<and>
                f2x j * f2x j + f2y j * f2y j = 1))"
proof -
  have r: "\<And>t. - 1 \<le> fst (rng rnd t) \<and> fst (rng rnd t) \<le> 1"
    using assms rng_range by blast
  have j2: "antialiasing_jitter2 rnd s =
      (make_float2 (fst (rng rnd s)) (fst (rng rnd (snd (rng rnd s)))),
       snd (rng rnd (snd (rng rnd s))))"
    by (simp add: antialiasing_jitter2_def split: prod.splits)
  have j1: "antialiasing_jitter rnd s =
      (normalize2 (make_float2 (fst (rng rnd s)) (fst (rng rnd (snd (rng rnd s))))),
       snd (rng rnd (snd (rng rnd s))))"
    by (simp add: antialiasing_jitter_def split: prod.splits)
  let ?v = "make_float2 (fst (rng rnd s)) (fst (rng rnd (snd (rng rnd s))))"
  have g: "- 1 \<le> f2x (normalize2 ?v) \<and> f2x (normalize2 ?v) \<le> 1 \<and>
           - 1 \<le> f2y (normalize2 ?v) \<and> f2y (normalize2 ?v) \<le> 1 \<and>
           f2x (normalize2 ?v) * f2x (normalize2 ?v) +
           f2y (normalize2 ?v) * f2y (normalize2 ?v) = 1"
    if "?v \<noteq> make_float2 0 0"
    using normalize2_range[OF that] normalize2_unit[OF that] by (simp add: dot2_def)
  from r[of s] r[of "snd (rng rnd s)"] j1 j2 g show ?thesis
    unfolding Let_def by blast
qed

theorem jitter_offsets_witness:
  "(\<forall>s. 0 \<le> fst (lcg_rnd s) \<and> fst (lcg_rnd s) \<le> 1) \<and>
   make_float2 (fst (rng lcg_rnd 0)) (fst (rng lcg_rnd (snd (rng lcg_rnd 0)))) \<noteq> make_float2 0 0 \<and>
   antialiasing_jitter2 lcg_rnd 0 =
     (make_float2 (7271263 / 8388608 - 1) (5253426 / 8388608 - 1), 1196435762) \<and>
   - 1 \<le> f2x (fst (antialiasing_jitter lcg_rnd 0)) \<and>
   f2x (fst (antialiasing_jitter lcg_rnd 0)) \<le> 1 \<and>
   - 1 \<le> f2y (fst (antialiasing_jitter lcg_rnd 0)) \<and>
   f2y (fst (antialiasing_jitter lcg_rnd 0)) \<le> 1"
proof -
  have h: "\<forall>s. 0 \<le> fst (lcg_rnd s) \<and> fst (lcg_rnd s) \<le> 1"
    using lcg_rnd_range by blast
  have d: "rng lcg_rnd 0 = (7271263 / 8388608 - 1, 1013904223)"
     "rng lcg_rnd 1013904223 = (5253426 / 8388608 - 1, 1196435762)"
    by (simp_all add: rng_def lcg_rnd_def lcg_0)
  have n: "make_float2 (fst (rng lcg_rnd 0)) (fst (rng lcg_rnd (snd (rng lcg_rnd 0)))) \<noteq>
           make_float2 0 0"
    by (simp add: d)
  note t = jitter_offsets[OF h, of 0, unfolded Let_def]
  from t n have
    "antialiasing_jitter2 lcg_rnd 0 =
       (make_float2 (fst (rng lcg_rnd 0)) (fst (rng lcg_rnd (snd (rng lcg_rnd 0)))),
        snd (rng lcg_rnd (snd (rng lcg_rnd 0))))"
    and "antialiasing_jitter lcg_rnd 0 =
       (normalize2 (make_float2 (fst (rng lcg_rnd 0)) (fst (rng lcg_rnd (snd (rng lcg_rnd 0))))),
        snd (rng lcg_rnd (snd (rng lcg_rnd 0))))"
    and "- 1 \<le> f2x (normalize2 (make_float2 (fst (rng lcg_rnd 0))
                       (fst (rng lcg_rnd (snd (rng lcg_rnd 0))))))"
    and "f2x (normalize2 (make_float2 (fst (rng lcg_rnd 0))
                       (fst (rng lcg_rnd (snd (rng lcg_rnd 0)))))) \<le> 1"
    and "- 1 \<le> f2y (normalize2 (make_float2 (fst (rng lcg_rnd 0))
                       (fst (rng lcg_rnd (snd (rng lcg_rnd 0))))))"
    and "f2y (normalize2 (make_float2 (fst (rng lcg_rnd 0))
                       (fst (rng lcg_rnd (snd (rng lcg_rnd 0)))))) \<le> 1"
    by blast+
  with h n show ?thesis by (simp add: d)
qed

text \<open>
  C7 as it is stated fails on \<^verbatim>\<open>shader.cu\<close>. At seed 0 of the generator above the first
  component of the jitter is not the first draw, and the two components satisfy
  \<open>x\<^sup>2 + y\<^sup>2 = 1\<close>: they are not two independent offsets.
\<close>

theorem shader_jitter_on_unit_circle:
  "f2x (fst (antialiasing_jitter lcg_rnd 0)) \<noteq> fst (rng lcg_rnd 0) \<and>
   f2x (fst (antialiasing_jitter lcg_rnd 0)) * f2x (fst (antialiasing_jitter lcg_rnd 0)) +
   f2y (fst (antialiasing_jitter lcg_rnd 0)) * f2y (fst (antialiasing_jitter lcg_rnd 0)) = 1"
proof -
  define a :: real where "a = 7271263 / 8388608 - 1"
  define b :: real where "b = 5253426 / 8388608 - 1"
  have d: "rng lcg_rnd 0 = (a, 1013904223)"
    by (simp add: rng_def lcg_rnd_def lcg_0 a_def)
  have j: "fst (antialiasing_jitter lcg_rnd 0) = normalize2 (make_float2 a b)"
    by (simp add: jitter_lcg_0 a_def b_def)
  have q: "a * a + b * b < 1" by (simp add: a_def b_def)
  have "sqrt (a * a + b * b) < 1"
    using q real_sqrt_less_iff[of "a * a + b * b" 1] by simp
  moreover have "0 < sqrt (a * a + b * b)" by (simp add: a_def b_def)
  ultimately have "1 < 1 / sqrt (a * a + b * b)" by simp
  moreover have "a < 0" by (simp add: a_def)
  ultimately have "a * (1 / sqrt (a * a + b * b)) < a * 1"
    by (intro mult_strict_left_mono_neg) simp_all
  then have 1: "f2x (normalize2 (make_float2 a b)) \<noteq> a"
    by (simp add: normalize2_def dot2_def)
  have "make_float2 a b \<noteq> make_float2 0 0" using \<open>a < 0\<close> by simp
  from normalize2_unit[OF this]
  have 2: "f2x (normalize2 (make_float2 a b)) * f2x (normalize2 (make_float2 a b)) +
           f2y (normalize2 (make_float2 a b)) * f2y (normalize2 (make_float2 a b)) = 1"
    by (simp add: dot2_def)
  from 1 2 show ?thesis by (simp add: j d)
qed

subsection \<open>The light sampler\<close>

lemma shoot_ray_to_light_from_unfold:
  assumes "i < count" and "shoot_ray_hemisphere rnd (normal st) (seed st) = (d, s')"
    and "temp = trace_occlusion hdl (xyz st) d (1 / 10 ^ 6) (10 ^ 16) (Intersection_decl u)"
  shows "shoot_ray_to_light_from rnd hdl u i st =
    (if hit temp
     then (scale3 (clamp (dot (normal st) d) 0 1) (emission_color (material temp)),
           st\<lparr>seed := s'\<rparr>, [(d, temp)])
     else (case shoot_ray_to_light_from rnd hdl u (i + 1) (st\<lparr>seed := s'\<rparr>) of
             (c, fin, probes) \<Rightarrow> (c, fin, (d, temp) # probes)))"
  by (subst shoot_ray_to_light_from.simps) (simp add: assms Let_def)

lemma shoot_ray_to_light_from_done:
  "\<not> i < count \<Longrightarrow> shoot_ray_to_light_from rnd hdl u i st = (splat3 0, st, [])"
  by (subst shoot_ray_to_light_from.simps) simp

lemma shoot_ray_to_light2_from_done:
  "\<not> i < count \<Longrightarrow> shoot_ray_to_light2_from rnd hdl i st = (splat3 0, st, [])"
  by (subst shoot_ray_to_light2_from.simps) simp

lemma contract_hit: 
  "hit t \<Longrightarrow> 0 < k \<Longrightarrow> first_hit_contract k nrm
     (scale3 (clamp (dot nrm d) 0 1) (emission_color (material t))) [(d, t)]"
  by (simp add: first_hit_contract_def)

lemma contract_last_miss:
  "\<not> hit t \<Longrightarrow> first_hit_contract (Suc 0) nrm (splat3 0) [(d, t)]"
  by (simp add: first_hit_contract_def)

lemma contract_cons:
  "\<not> hit t \<Longrightarrow> first_hit_contract k nrm c probes \<Longrightarrow>
   first_hit_contract (Suc k) nrm c ((d, t) # probes)"
  by (auto simp: first_hit_contract_def butlast_def split: if_splits)

lemma shoot_ray_to_light_from_contract:
  "i < count \<Longrightarrow> shoot_ray_to_light_from rnd hdl u i st = (c, st', probes) \<Longrightarrow>
     first_hit_contract (count - i) (normal st) c probes \<and>
     (\<exists>s. st' = st\<lparr>seed := s\<rparr>) \<and>
     list_all (\<lambda>p. snd p = trace_occlusion hdl (xyz st) (fst p) (1 / 10 ^ 6) (10 ^ 16)
                              (Intersection_decl u)) probes"
proof (induction rnd hdl u i st arbitrary: c st' probes rule: shoot_ray_to_light_from.induct)
  case (1 rnd hdl u i st)
  obtain d s' where h: "shoot_ray_hemisphere rnd (normal st) (seed st) = (d, s')"
    by (cases "shoot_ray_hemisphere rnd (normal st) (seed st)")
  define temp where
    "temp = trace_occlusion hdl (xyz st) d (1 / 10 ^ 6) (10 ^ 16) (Intersection_decl u)"
  note step = shoot_ray_to_light_from_unfold[OF "1.prems"(1) h temp_def]
  show ?case
  proof (cases "hit temp")
    case True
    with step "1.prems"(2)
    have e: "c = scale3 (clamp (dot (normal st) d) 0 1) (emission_color (material temp))"
      "st' = st\<lparr>seed := s'\<rparr>" "probes = [(d, temp)]"
      by simp_all
    from "1.prems"(1) have "0 < count - i" by simp
    from contract_hit[OF True this] e temp_def show ?thesis by auto
  next
    case False
    obtain c2 fin2 pr2
      where r: "shoot_ray_to_light_from rnd hdl u (i + 1) (st\<lparr>seed := s'\<rparr>) = (c2, fin2, pr2)"
      by (cases "shoot_ray_to_light_from rnd hdl u (i + 1) (st\<lparr>seed := s'\<rparr>)")
    from False step "1.prems"(2) r
    have e: "c = c2" "st' = fin2" "probes = (d, temp) # pr2" by simp_all
    show ?thesis
    proof (cases "i + 1 < count")
      case True
      have ih: "first_hit_contract (count - (i + 1)) (normal (st\<lparr>seed := s'\<rparr>)) c2 pr2 \<and>
         (\<exists>s. fin2 = st\<lparr>seed := s'\<rparr>\<lparr>seed := s\<rparr>) \<and>
         list_all (\<lambda>p. snd p = trace_occlusion hdl (xyz (st\<lparr>seed := s'\<rparr>)) (fst p)
                      (1 / 10 ^ 6) (10 ^ 16) (Intersection_decl u)) pr2"
        using "1.IH"[OF "1.prems"(1) h[symmetric] refl _ _ True r] False
        by (simp add: temp_def)
      have "Suc (count - (i + 1)) = count - i" using "1.prems"(1) by simp
      with contract_cons[OF False, of "count - (i + 1)" "normal st" c2 pr2 d] ih
      have "first_hit_contract (count - i) (normal st) c2 ((d, temp) # pr2)" by simp
      with ih e temp_def show ?thesis by auto
    next
      case f: False
      with r have "c2 = splat3 0" "fin2 = st\<lparr>seed := s'\<rparr>" "pr2 = []"
        by (simp_all add: shoot_ray_to_light_from_done)
      moreover from f "1.prems"(1) have "count - i = Suc 0" by simp
      ultimately show ?thesis using e contract_last_miss[OF False] temp_def by auto
    qed
  qed
qed


lemma shoot_ray_to_light2_from_contract:
  "i < count \<Longrightarrow> shoot_ray_to_light2_from rnd hdl i st = (c, st', probes) \<Longrightarrow>
     first_hit_contract (count - i) (normal st) c probes"
proof (induction rnd hdl i st arbitrary: c st' probes rule: shoot_ray_to_light2_from.induct)
  case (1 rnd hdl i st)
  obtain d st1 where h: "shoot_ray_hemisphere2 rnd st = (d, st1)"
    by (cases "shoot_ray_hemisphere2 rnd st")
  define probed where "probed = trace_occlusion hdl (xyz st1) d (1 / 100) (10 ^ 16) st1"
  from shoot_ray_hemisphere2_seed_only[OF h] obtain s where st1: "st1 = st\<lparr>seed := s\<rparr>"
    by blast
  have n: "normal probed = normal st"
    by (simp add: probed_def trace_occlusion_fields st1)
  note step = shoot_ray_to_light2_from_unfold[OF "1.prems"(1) h probed_def]
  show ?case
  proof (cases "hit probed")
    case True
    with step "1.prems"(2)
    have e: "c = scale3 (clamp (dot (normal st) d) 0 1) (emission_color (material probed))"
      "probes = [(d, probed)]"
      by (simp_all add: n)
    from "1.prems"(1) have "0 < count - i" by simp
    from contract_hit[OF True this] e show ?thesis by simp
  next
    case False
    obtain c2 fin2 pr2
      where r: "shoot_ray_to_light2_from rnd hdl (i + 1) probed = (c2, fin2, pr2)"
      by (cases "shoot_ray_to_light2_from rnd hdl (i + 1) probed")
    from False step "1.prems"(2) r
    have e: "c = c2" "probes = (d, probed) # pr2" by simp_all
    show ?thesis
    proof (cases "i + 1 < count")
      case True
      have ih: "first_hit_contract (count - (i + 1)) (normal probed) c2 pr2"
        using "1.IH"[OF "1.prems"(1) h[symmetric] probed_def False True r] .
      have "Suc (count - (i + 1)) = count - i" using "1.prems"(1) by simp
      with contract_cons[OF False, of "count - (i + 1)" "normal st" c2 pr2 d] ih n
      have "first_hit_contract (count - i) (normal st) c2 ((d, probed) # pr2)" by simp
      with e show ?thesis by simp
    next
      case f: False
      with r have "c2 = splat3 0" "pr2 = []"
        by (simp_all add: shoot_ray_to_light2_from_done)
      moreover from f "1.prems"(1) have "count - i = Suc 0" by simp
      ultimately show ?thesis using e contract_last_miss[OF False] by simp
    qed
  qed
qed

lemma clamp_unit: "clamp x 0 1 = min 1 (max x 0)"
  by (simp add: clamp_def min_def max_def)

lemma shoot_ray_to_light_first_hit:
  assumes "shoot_ray_hemisphere rnd (normal st) (seed st) = (d, s')"
    and "temp = trace_occlusion hdl (xyz st) d (1 / 10 ^ 6) (10 ^ 16) (Intersection_decl u)"
    and "hit temp"
  shows "shoot_ray_to_light rnd hdl u st =
    (scale3 (clamp (dot (normal st) d) 0 1) (emission_color (material temp)),
     st\<lparr>seed := s'\<rparr>, [(d, temp)])"
  unfolding shoot_ray_to_light_def
  using shoot_ray_to_light_from_unfold[OF _ assms(1,2), of 0] assms(3) by (simp add: count_def)

text \<open>
  In \<^verbatim>\<open>shader.cu\<close> the state a probe returns has \<^verbatim>\<open>hit\<close> set exactly when the occlusion
  ray met an emitter first: the probed state is a fresh local whose flag starts false.
\<close>

lemma shader_probe_hit_iff:
  "hit (trace_occlusion hdl ro rd tmin tmax (Intersection_decl u)) \<longleftrightarrow>
     (\<exists>h. occlusion_hit hdl ro rd tmin tmax = Some h \<and> emit (hg_material (rt_data h)))"
  by (simp add: trace_occlusion_def miss_occlusion_def closesthit_occlusion_def
        Intersection_decl_def split: option.splits)

lemma clean_probe_agrees:
  "hit x = False \<Longrightarrow> probe_agrees hdl ro tmin tmax (d, trace_occlusion hdl ro d tmin tmax x)"
  by (simp add: probe_agrees_def trace_occlusion_def miss_occlusion_def closesthit_occlusion_def
        split: option.splits)

lemma probe_agrees_flag:
  "probe_agrees hdl ro tmin tmax p \<Longrightarrow> hit (snd p) = emitter_first hdl ro (fst p) tmin tmax"
  by (simp add: probe_agrees_def emitter_first_def split: option.splits)

lemma flags_to_emitters:
  assumes "first_hit_contract k nrm c probes"
    and "list_all (probe_agrees hdl ro tmin tmax) probes"
  shows "emitter_contract k hdl ro tmin tmax nrm c probes"
proof -
  from assms(1) have ne: "probes \<noteq> []" and le: "length probes \<le> k"
    and bl: "list_all (\<lambda>p. \<not> hit (snd p)) (butlast probes)"
    by (simp_all add: first_hit_contract_def)
  from assms(2) have all: "\<And>p. p \<in> set probes \<Longrightarrow> probe_agrees hdl ro tmin tmax p"
    by (simp add: list_all_iff)
  have b: "list_all (\<lambda>p. emitter_first hdl ro (fst p) tmin tmax = False) (butlast probes)"
    unfolding list_all_iff
  proof
    fix p assume p: "p \<in> set (butlast probes)"
    then have "p \<in> set probes" by (rule in_set_butlastD)
    from probe_agrees_flag[OF all[OF this]] bl p
    show "emitter_first hdl ro (fst p) tmin tmax = False" by (simp add: list_all_iff)
  qed
  from ne have "last probes \<in> set probes" by simp
  from all[OF this] have l: "probe_agrees hdl ro tmin tmax (last probes)" .
  have v: "(case occlusion_hit hdl ro (fst (last probes)) tmin tmax of
         None \<Rightarrow> c = splat3 0 \<and> length probes = k
       | Some h \<Rightarrow>
           if emit (hg_material (rt_data h))
           then c = scale3 (clamp (dot nrm (fst (last probes))) 0 1)
                      (emission_color (hg_material (rt_data h)))
           else c = splat3 0 \<and> length probes = k)"
    using l assms(1)
    by (auto simp: probe_agrees_def first_hit_contract_def split: option.splits if_splits)
  from ne le assms(2) b v show ?thesis by (simp add: emitter_contract_def)
qed

lemma shoot_ray_to_light2_from_agrees:
  "hit st = False \<Longrightarrow> shoot_ray_to_light2_from rnd hdl i st = (c, st', probes) \<Longrightarrow>
     list_all (probe_agrees hdl (xyz st) (1 / 100) (10 ^ 16)) probes"
proof (induction rnd hdl i st arbitrary: c st' probes rule: shoot_ray_to_light2_from.induct)
  case (1 rnd hdl i st)
  show ?case
  proof (cases "i < count")
    case False
    with "1.prems"(2) show ?thesis by (simp add: shoot_ray_to_light2_from_done)
  next
    case True
    obtain d st1 where h: "shoot_ray_hemisphere2 rnd st = (d, st1)"
      by (cases "shoot_ray_hemisphere2 rnd st")
    from shoot_ray_hemisphere2_seed_only[OF h] obtain s where st1: "st1 = st\<lparr>seed := s\<rparr>"
      by blast
    define probed where "probed = trace_occlusion hdl (xyz st1) d (1 / 100) (10 ^ 16) st1"
    have "hit st1 = False" using "1.prems"(1) st1 by simp
    from clean_probe_agrees[OF this, of hdl "xyz st1" "1 / 100" "10 ^ 16" d]
    have pa: "probe_agrees hdl (xyz st) (1 / 100) (10 ^ 16) (d, probed)"
      unfolding probed_def st1 by simp
    have x: "xyz probed = xyz st"
      unfolding probed_def by (simp add: trace_occlusion_fields st1)
    note step = shoot_ray_to_light2_from_unfold[OF True h probed_def]
    show ?thesis
    proof (cases "hit probed")
      case True
      with step "1.prems"(2) have "probes = [(d, probed)]" by simp
      with pa show ?thesis by simp
    next
      case False
      obtain c2 fin2 pr2
        where r: "shoot_ray_to_light2_from rnd hdl (i + 1) probed = (c2, fin2, pr2)"
        by (cases "shoot_ray_to_light2_from rnd hdl (i + 1) probed")
      from False step "1.prems"(2) r have e: "probes = (d, probed) # pr2" by simp
      from False have "hit probed = False" by simp
      from "1.IH"[OF True h[symmetric] probed_def False this r]
      have "list_all (probe_agrees hdl (xyz st) (1 / 100) (10 ^ 16)) pr2" by (simp only: x)
      with pa e show ?thesis by simp
    qed
  qed
qed

lemma shoot_ray_to_light_from_agrees:
  assumes "list_all (\<lambda>p. snd p = trace_occlusion hdl ro (fst p) tmin tmax (Intersection_decl u))
             probes"
  shows "list_all (probe_agrees hdl ro tmin tmax) probes"
proof -
  have f: "hit (Intersection_decl u) = False" by (simp add: Intersection_decl_def)
  have "probe_agrees hdl ro tmin tmax p"
    if "snd p = trace_occlusion hdl ro (fst p) tmin tmax (Intersection_decl u)" for p
    using clean_probe_agrees[OF f, of hdl ro tmin tmax "fst p"] that by (cases p) simp
  with assms show ?thesis by (simp add: list_all_iff)
qed

text \<open>
  C2, with the clamp the code has. The light sampler of \<^verbatim>\<open>shader.cu\<close> keeps the contract
  \<open>emitter_contract\<close> with a budget of 7 probes: each probe is an occlusion query from
  the shading point on a fresh state, its \<^verbatim>\<open>hit\<close> flag is set exactly when the ray met an
  emitter first, and the sampler returns on the first such probe with the emission
  colour of the material that was hit times \<^verbatim>\<open>clamp(dot(normal, dir), 0, 1)\<close>, and zero
  after 7 probes without one. The light sampler of \<^verbatim>\<open>shader2.cu\<close> keeps the same contract
  when it is entered with \<^verbatim>\<open>hit\<close> false; what it does when an earlier bounce has left the
  flag set is not stated here. The clamp is \<open>max(dot, 0)\<close> capped at 1.
\<close>

theorem light_sampler_contract:
  "emitter_contract 7 hdl (xyz st) (1 / 10 ^ 6) (10 ^ 16) (normal st)
      (fst (shoot_ray_to_light rnd hdl u st)) (snd (snd (shoot_ray_to_light rnd hdl u st))) \<and>
   list_all (\<lambda>p. snd p = trace_occlusion hdl (xyz st) (fst p) (1 / 10 ^ 6) (10 ^ 16)
                            (Intersection_decl u))
      (snd (snd (shoot_ray_to_light rnd hdl u st))) \<and>
   (hit st = False \<longrightarrow>
      emitter_contract 7 hdl (xyz st) (1 / 100) (10 ^ 16) (normal st)
        (fst (shoot_ray_to_light2 rnd hdl st)) (snd (snd (shoot_ray_to_light2 rnd hdl st)))) \<and>
   clamp x 0 1 = min 1 (max x 0)"
proof -
  have z: "0 < count" by (simp add: count_def)
  have k: "count - 0 = 7" by (simp add: count_def)
  obtain c st' probes where a: "shoot_ray_to_light_from rnd hdl u 0 st = (c, st', probes)"
    by (cases "shoot_ray_to_light_from rnd hdl u 0 st")
  obtain c2 st2 probes2 where b: "shoot_ray_to_light2_from rnd hdl 0 st = (c2, st2, probes2)"
    by (cases "shoot_ray_to_light2_from rnd hdl 0 st")
  note ca = shoot_ray_to_light_from_contract[OF z a, unfolded k]
  from ca have la: "list_all (\<lambda>p. snd p = trace_occlusion hdl (xyz st) (fst p) (1 / 10 ^ 6)
      (10 ^ 16) (Intersection_decl u)) probes" by blast
  from ca have fa: "first_hit_contract 7 (normal st) c probes" by blast
  have 1: "emitter_contract 7 hdl (xyz st) (1 / 10 ^ 6) (10 ^ 16) (normal st) c probes"
    by (rule flags_to_emitters[OF fa shoot_ray_to_light_from_agrees[OF la]])
  have 2: "emitter_contract 7 hdl (xyz st) (1 / 100) (10 ^ 16) (normal st) c2 probes2"
    if "hit st = False"
    by (rule flags_to_emitters[OF shoot_ray_to_light2_from_contract[OF z b, unfolded k]
          shoot_ray_to_light2_from_agrees[OF that b]])
  have e: "fst (shoot_ray_to_light rnd hdl u st) = c"
    "snd (snd (shoot_ray_to_light rnd hdl u st)) = probes"
    "fst (shoot_ray_to_light2 rnd hdl st) = c2"
    "snd (snd (shoot_ray_to_light2 rnd hdl st)) = probes2"
    by (simp_all add: shoot_ray_to_light_def shoot_ray_to_light2_def a b)
  from 1 la 2 clamp_unit[of x] show ?thesis unfolding e by blast
qed

theorem light_sampler_contract_witness:
  "hit first_state = False \<and>
   emitter_contract 7 lamp_then_wall (xyz first_state) (1 / 100) (10 ^ 16) (normal first_state)
     (fst (shoot_ray_to_light2 lcg_rnd lamp_then_wall first_state))
     (snd (snd (shoot_ray_to_light2 lcg_rnd lamp_then_wall first_state))) \<and>
   emitter_contract 7 lamp_then_wall (xyz first_state) (1 / 10 ^ 6) (10 ^ 16) (normal first_state)
     (fst (shoot_ray_to_light lcg_rnd lamp_then_wall first_state first_state))
     (snd (snd (shoot_ray_to_light lcg_rnd lamp_then_wall first_state first_state))) \<and>
   length (snd (snd (shoot_ray_to_light2 lcg_rnd lamp_then_wall first_state))) = 1 \<and>
   emitter_first lamp_then_wall (xyz first_state)
     (fst (hd (snd (snd (shoot_ray_to_light2 lcg_rnd lamp_then_wall first_state)))))
     (1 / 100) (10 ^ 16)"
proof -
  have h: "hit first_state = False" by (simp add: first_state_def)
  note t = light_sampler_contract[of lamp_then_wall first_state lcg_rnd first_state 0]
  from t h have
    b: "emitter_contract 7 lamp_then_wall (xyz first_state) (1 / 100) (10 ^ 16)
          (normal first_state) (fst (shoot_ray_to_light2 lcg_rnd lamp_then_wall first_state))
          (snd (snd (shoot_ray_to_light2 lcg_rnd lamp_then_wall first_state)))"
    and a: "emitter_contract 7 lamp_then_wall (xyz first_state) (1 / 10 ^ 6) (10 ^ 16)
          (normal first_state)
          (fst (shoot_ray_to_light lcg_rnd lamp_then_wall first_state first_state))
          (snd (snd (shoot_ray_to_light lcg_rnd lamp_then_wall first_state first_state)))"
    by blast+
  have ef: "emitter_first lamp_then_wall (xyz first_state) d (1 / 100) (10 ^ 16)" for d
    by (simp add: emitter_first_def lamp_then_wall_def first_state_def hit_on_def
          lamp_material_def)
  let ?pr = "snd (snd (shoot_ray_to_light2 lcg_rnd lamp_then_wall first_state))"
  from b have ne: "?pr \<noteq> []"
    and bl: "list_all (\<lambda>p. emitter_first lamp_then_wall (xyz first_state) (fst p)
                (1 / 100) (10 ^ 16) = False) (butlast ?pr)"
    unfolding emitter_contract_def by blast+
  from bl ef have "butlast ?pr = []" by (cases "butlast ?pr") simp_all
  with ne have l: "length ?pr = 1" by (cases ?pr) (simp_all split: if_splits)
  from h a b l ef show ?thesis by blast
qed

text \<open>
  C2 as it is stated fails where the dot product exceeds 1. With the shading normal
  \<open>(2,0,0)\<close> and the seed 7 the first probe meets the lamp, whose emission is \<open>(1,1,1)\<close>;
  the dot product of normal and direction is above 1, and the sampler returns
  \<open>(1,1,1)\<close>, not the emission times \<open>max(dot, 0)\<close>.
\<close>

theorem shader_sampler_caps_cosine:
  "(let r = shoot_ray_to_light lcg_rnd lamp_then_wall first_state steep_state;
        d = fst (hd (snd (snd r)));
        t = snd (hd (snd (snd r)))
    in length (snd (snd r)) = 1 \<and> hit t \<and> emission_color (material t) = splat3 1 \<and>
       fst r = splat3 1 \<and> 1 < max (dot (normal steep_state) d) 0 \<and>
       fst r \<noteq> scale3 (max (dot (normal steep_state) d) 0) (emission_color (material t)))"
proof -
  define v where "v = make_float3 (2145722 / 8388608 - 1) (14332369 / 8388608 - 1)
                        (13385980 / 8388608 - 1 :: real)"
  define n where "n = make_float3 2 0 0"
  define d where "d = faceforward (normalize3 v) n (normalize3 v)"
  define temp where "temp = trace_occlusion lamp_then_wall (xyz steep_state) d (1 / 10 ^ 6) (10 ^ 16)
                      (Intersection_decl first_state)"
  have h: "shoot_ray_hemisphere lcg_rnd (normal steep_state) (seed steep_state) = (d, 2630631676)"
    by (simp add: shoot_ray_hemisphere_draw3 steep_state_def draw3_lcg_7 d_def v_def n_def)
  have t: "hit temp" "emission_color (material temp) = splat3 1"
    by (simp_all add: temp_def trace_occlusion_def closesthit_occlusion_def lamp_then_wall_def
          steep_state_def first_state_def hit_on_def lamp_material_def)
  note r = shoot_ray_to_light_first_hit[OF h temp_def t(1)]
  have "dot n d = \<bar>dot n (normalize3 v)\<bar>"
    by (simp add: d_def dot_commute[of n] dot_faceforward)
  also have "dot n (normalize3 v) = dot n v / sqrt (dot v v)"
    by (simp add: normalize3_def dot_scale3_right)
  finally have dd: "dot n d = \<bar>dot n v\<bar> / sqrt (dot v v)"
    by (simp add: dot_self_nonneg)
  have q: "dot v v < \<bar>dot n v\<bar> ^ 2"
    by (simp add: dot_def v_def n_def power2_eq_square)
  have "sqrt (dot v v) < \<bar>dot n v\<bar>"
    by (rule real_less_lsqrt) (use q in simp_all)
  moreover have "0 < sqrt (dot v v)"
    by (simp add: dot_def v_def)
  ultimately have big: "1 < dot n d" by (simp add: dd)
  then have c: "clamp (dot n d) 0 1 = 1" by (simp add: clamp_def)
  have nn: "normal steep_state = n" by (simp add: steep_state_def n_def)
  have 1: "fst (shoot_ray_to_light lcg_rnd lamp_then_wall first_state steep_state) = splat3 1"
    by (simp add: r nn c t(2)) (simp add: scale3_def splat3_def)
  have 2: "snd (snd (shoot_ray_to_light lcg_rnd lamp_then_wall first_state steep_state)) = [(d, temp)]"
    by (simp add: r)
  have 3: "splat3 1 \<noteq> scale3 (max (dot n d) 0) (splat3 1)"
    using big by (simp add: scale3_def splat3_def)
  from big have 4: "1 < max (dot n d) 0" by simp
  show ?thesis
    unfolding Let_def 1 2 using t 3 4 by (simp add: nn)
qed

subsection \<open>Accumulation over frames\<close>

lemma sint_of_nat_32:
  assumes "k < 2 ^ 31"
  shows "sint (of_nat k :: 32 word) = int k"
proof -
  have "signed_take_bit 31 (int k) = int k"
    by (rule signed_take_bit_int_eq_self) (use assms in simp_all)
  then show ?thesis by (simp add: signed_of_nat)
qed

lemma blend_first: "blend 0 cell e = e"
  by (simp add: blend_def)

lemma blend_later:
  assumes "0 < k" and "k + 1 < 2 ^ 31"
  shows "blend (of_nat k) cell e = lerp (xyz4 cell) e (1 / (real k + 1))"
proof -
  have a: "sint (of_nat k :: 32 word) = int k"
    using assms by (intro sint_of_nat_32) simp
  have "(of_nat k + 1 :: 32 word) = of_nat (Suc k)" by simp
  moreover have "sint (of_nat (Suc k) :: 32 word) = int (Suc k)"
    using assms(2) by (intro sint_of_nat_32) simp
  ultimately have b: "sint (of_nat k + 1 :: 32 word) = int k + 1"
    by (simp only: of_nat_Suc add.commute)
  show ?thesis
    unfolding blend_def a b using assms(1) by (simp add: Let_def add.commute)
qed

lemma raygen_store_cell:
  "accum_buffer (raygen_store make_color params idx_x idx_y acc) (idx_y * width params + idx_x) =
     make_float4 (blend (subframe_index params)
                    (accum_buffer params (idx_y * width params + idx_x)) acc) 1"
  by (simp add: raygen_store_def Let_def)

lemma raygen_store_width:
  "width (raygen_store make_color params idx_x idx_y acc) = width params"
  by (simp add: raygen_store_def Let_def)

lemma lerp_mean:
  assumes "0 < k"
  shows "lerp (div3 t (real k)) e (1 / (real k + 1)) = div3 (add3 t e) (real k + 1)"
proof -
  have k: "real k \<noteq> 0" "real k + 1 \<noteq> 0" using assms by simp_all
  have m: "\<And>c b :: real. c + (b - c) / (real k + 1) = (c * real k + b) / (real k + 1)"
    using k by (simp add: field_simps)
  have "\<And>a b :: real. a / real k + (b - a / real k) / (real k + 1) = (a + b) / (real k + 1)"
    using m[of "a / real k" for a] k by simp
  then show ?thesis
    by (simp add: lerp_def div3_def add3_def sub3_def scale3_def)
qed

lemma launch_frames_running_mean:
  assumes "0 < k" and "k + length es < 2 ^ 31"
    and "accum_buffer params (idx_y * width params + idx_x) = make_float4 (div3 t (real k)) 1"
  shows "accum_buffer (launch_frames make_color params idx_x idx_y k es)
           (idx_y * width params + idx_x) =
         make_float4 (div3 (add3 t (sum3 es)) (real (k + length es))) 1 \<and>
         width (launch_frames make_color params idx_x idx_y k es) = width params"
  using assms
proof (induction es arbitrary: k params t)
  case Nil
  then show ?case
    by (cases t) (simp add: add3_def splat3_def)
next
  case (Cons e es)
  let ?p = "raygen_store make_color (params\<lparr>subframe_index := of_nat k\<rparr>) idx_x idx_y e"
  from Cons.prems have k1: "k + 1 < 2 ^ 31" by simp
  have wd: "width ?p = width params" by (simp add: raygen_store_width)
  have "accum_buffer ?p (idx_y * width params + idx_x) =
      make_float4 (blend (of_nat k) (make_float4 (div3 t (real k)) 1) e) 1"
    using raygen_store_cell[of make_color "params\<lparr>subframe_index := of_nat k\<rparr>" idx_x idx_y e]
      Cons.prems(3) by simp
  also have "blend (of_nat k) (make_float4 (div3 t (real k)) 1) e =
      div3 (add3 t e) (real (Suc k))"
    using blend_later[OF Cons.prems(1) k1] lerp_mean[OF Cons.prems(1)]
    by (simp add: add.commute)
  finally have c: "accum_buffer ?p (idx_y * width ?p + idx_x) =
      make_float4 (div3 (add3 t e) (real (Suc k))) 1"
    by (simp add: wd)
  have "Suc k + length es < 2 ^ 31" using Cons.prems(2) by simp
  from Cons.IH[OF _ this c] wd
  have "accum_buffer (launch_frames make_color ?p idx_x idx_y (Suc k) es)
           (idx_y * width params + idx_x) =
         make_float4 (div3 (add3 (add3 t e) (sum3 es)) (real (Suc k + length es))) 1 \<and>
         width (launch_frames make_color ?p idx_x idx_y (Suc k) es) = width params"
    by simp
  moreover have "add3 (add3 t e) (sum3 es) = add3 t (add3 e (sum3 es))"
    by (simp add: add3_def)
  ultimately show ?case by simp
qed

lemma launch_frames_from_zero:
  assumes "length (e0 # es) < 2 ^ 31"
  shows "accum_buffer (launch_frames make_color params idx_x idx_y 0 (e0 # es))
           (idx_y * width params + idx_x) = make_float4 (mean3 (e0 # es)) 1"
proof -
  let ?p = "raygen_store make_color (params\<lparr>subframe_index := of_nat 0\<rparr>) idx_x idx_y e0"
  have wd: "width ?p = width params" by (simp add: raygen_store_width)
  have c0: "accum_buffer ?p (idx_y * width ?p + idx_x) = make_float4 (div3 e0 (real 1)) 1"
    using raygen_store_cell[of make_color "params\<lparr>subframe_index := 0\<rparr>" idx_x idx_y e0]
    by (cases e0) (simp add: blend_first div3_def raygen_store_width)
  have "1 + length es < 2 ^ 31" using assms by simp
  from launch_frames_running_mean[OF _ this c0, of make_color] wd
  show ?thesis by (simp add: mean3_def)
qed

text \<open>
  C3. For one pixel and the estimates \<open>e\<^sub>0, \<dots>, e\<^sub>N\<close> of the frames \<open>0, \<dots>, N\<close> (fewer
  than \<open>2\<^sup>3\<^sup>1\<close> frames, so that \<^verbatim>\<open>subframe_index + 1\<close> stays an \<^verbatim>\<open>int\<close>), the cell of the
  accumulation buffer after the last frame holds the arithmetic mean of the estimates,
  whatever it held before frame 0; after frame 0 alone it holds \<open>e\<^sub>0\<close>, after frames 0
  and 1 it holds \<open>(e\<^sub>0 + e\<^sub>1) / 2\<close>. The blend of a frame with index \<open>k > 0\<close> is the
  \<^verbatim>\<open>lerp\<close> of weight \<open>1 / (k + 1)\<close> (lemma \<open>blend_later\<close>).
\<close>

theorem accumulation_is_mean:
  assumes "length (e0 # es) < 2 ^ 31"
  shows "accum_buffer (launch_frames make_color params idx_x idx_y 0 (e0 # es))
           (idx_y * width params + idx_x) = make_float4 (mean3 (e0 # es)) 1 \<and>
         accum_buffer (launch_frames make_color params idx_x idx_y 0 [e0])
           (idx_y * width params + idx_x) = make_float4 e0 1 \<and>
         accum_buffer (launch_frames make_color params idx_x idx_y 0 [e0, e1])
           (idx_y * width params + idx_x) = make_float4 (div3 (add3 e0 e1) 2) 1"
proof -
  have 1: "accum_buffer (launch_frames make_color params idx_x idx_y 0 [e0])
           (idx_y * width params + idx_x) = make_float4 e0 1"
    using launch_frames_from_zero[where ?e0.0 = e0 and es = "[]" and make_color = make_color
              and params = params and idx_x = idx_x and idx_y = idx_y]
    by (cases e0) (simp add: mean3_def div3_def add3_def splat3_def)
  have 2: "accum_buffer (launch_frames make_color params idx_x idx_y 0 [e0, e1])
           (idx_y * width params + idx_x) = make_float4 (div3 (add3 e0 e1) 2) 1"
    using launch_frames_from_zero[where ?e0.0 = e0 and es = "[e1]" and make_color = make_color
              and params = params and idx_x = idx_x and idx_y = idx_y]
    by (cases e0, cases e1) (simp add: mean3_def div3_def add3_def splat3_def)
  from launch_frames_from_zero[OF assms] 1 2 show ?thesis by blast
qed

theorem accumulation_is_mean_witness:
  "length [grey 1, grey 2, grey 6] < (2::nat) ^ 31 \<and>
   (\<forall>make_color params idx_x idx_y.
      accum_buffer (launch_frames make_color params idx_x idx_y 0 [grey 1, grey 2, grey 6])
           (idx_y * width params + idx_x) = make_float4 (grey 3) 1)"
proof -
  have h: "length [grey 1, grey 2, grey 6] < (2::nat) ^ 31" by simp
  have "mean3 [grey 1, grey 2, grey 6] = grey 3"
    by (simp add: mean3_def grey_def add3_def div3_def splat3_def)
  with accumulation_is_mean[OF h] h show ?thesis by simp
qed

subsection \<open>The bounce loop\<close>

lemma bounce_from_unfold:
  assumes "j < nb_bounces"
    and "traced = trace_radiance rnd hdl u ro rd (1 / 10 ^ 6) (10 ^ 16) (st\<lparr>done_flag := False\<rparr>)"
  shows "bounce_from rnd hdl u j ro rd s st =
    (if done_flag traced then (s, traced, [traced])
     else (case bounce_from rnd hdl u (j + 1) (xyz traced)
                  (fst (shoot_ray_hemisphere rnd (normal traced) s)) (seed traced) traced of
             (sf, fin, traces) \<Rightarrow> (sf, fin, traced # traces)))"
  by (subst bounce_from.simps) (simp add: assms Let_def split: prod.splits)

lemma bounce_from_done:
  "\<not> j < nb_bounces \<Longrightarrow> bounce_from rnd hdl u j ro rd s st = (s, st, [])"
  by (subst bounce_from.simps) simp

lemma bounce2_from_unfold:
  assumes "j < nb_bounces"
    and "traced = trace_radiance2 rnd hdl ro rd (1 / 100) (10 ^ 16) (st\<lparr>done_flag := False\<rparr>)"
  shows "bounce2_from rnd hdl j ro rd st =
    (if done_flag traced then (traced, [traced])
     else (case bounce2_from rnd hdl (j + 1) (xyz traced)
                  (fst (shoot_ray_hemisphere2 rnd traced)) (snd (shoot_ray_hemisphere2 rnd traced)) of
             (fin, traces) \<Rightarrow> (fin, traced # traces)))"
  by (subst bounce2_from.simps) (simp add: assms Let_def split: prod.splits)

lemma bounce2_from_done:
  "\<not> j < nb_bounces \<Longrightarrow> bounce2_from rnd hdl j ro rd st = (st, [])"
  by (subst bounce2_from.simps) simp

lemma bounce_contract_done: "done_flag t \<Longrightarrow> 0 < k \<Longrightarrow> bounce_contract k t [t]"
  by (simp add: bounce_contract_def)

lemma bounce_contract_last:
  "accum_color fin = accum_color t \<Longrightarrow> bounce_contract (Suc 0) fin [t]"
  by (simp add: bounce_contract_def)

lemma bounce_contract_cons:
  "\<not> done_flag t \<Longrightarrow> bounce_contract k fin traces \<Longrightarrow> bounce_contract (Suc k) fin (t # traces)"
  by (auto simp: bounce_contract_def)

lemma bounce_from_contract:
  "j < nb_bounces \<Longrightarrow> bounce_from rnd hdl u j ro rd s st = (sf, fin, traces) \<Longrightarrow>
     bounce_contract (nb_bounces - j) fin traces"
proof (induction rnd hdl u j ro rd s st arbitrary: sf fin traces rule: bounce_from.induct)
  case (1 rnd hdl u j ro rd s st)
  define traced where
    "traced = trace_radiance rnd hdl u ro rd (1 / 10 ^ 6) (10 ^ 16) (st\<lparr>done_flag := False\<rparr>)"
  note step = bounce_from_unfold[OF "1.prems"(1) traced_def, of s]
  show ?case
  proof (cases "done_flag traced")
    case True
    with step "1.prems"(2) have "fin = traced" "traces = [traced]" by simp_all
    moreover from "1.prems"(1) have "0 < nb_bounces - j" by simp
    ultimately show ?thesis using bounce_contract_done[OF True] by simp
  next
    case False
    obtain d s' where h: "shoot_ray_hemisphere rnd (normal traced) s = (d, s')"
      by (cases "shoot_ray_hemisphere rnd (normal traced) s")
    obtain sf2 fin2 tr2
      where r: "bounce_from rnd hdl u (j + 1) (xyz traced) d (seed traced) traced = (sf2, fin2, tr2)"
      by (cases "bounce_from rnd hdl u (j + 1) (xyz traced) d (seed traced) traced")
    from False step "1.prems"(2) r h have e: "fin = fin2" "traces = traced # tr2" by simp_all
    show ?thesis
    proof (cases "j + 1 < nb_bounces")
      case True
      have "bounce_contract (nb_bounces - (j + 1)) fin2 tr2"
        using "1.IH"[OF "1.prems"(1) traced_def False h[symmetric] True r] .
      moreover have "Suc (nb_bounces - (j + 1)) = nb_bounces - j" using "1.prems"(1) by simp
      ultimately show ?thesis using bounce_contract_cons[OF False] e by metis
    next
      case f: False
      with r have "fin2 = traced" "tr2 = []" by (simp_all add: bounce_from_done)
      moreover from f "1.prems"(1) have "nb_bounces - j = Suc 0" by simp
      ultimately show ?thesis using e bounce_contract_last[of traced traced] by simp
    qed
  qed
qed

lemma bounce2_from_contract:
  "j < nb_bounces \<Longrightarrow> bounce2_from rnd hdl j ro rd st = (fin, traces) \<Longrightarrow>
     bounce_contract (nb_bounces - j) fin traces"
proof (induction rnd hdl j ro rd st arbitrary: fin traces rule: bounce2_from.induct)
  case (1 rnd hdl j ro rd st)
  define traced where
    "traced = trace_radiance2 rnd hdl ro rd (1 / 100) (10 ^ 16) (st\<lparr>done_flag := False\<rparr>)"
  note step = bounce2_from_unfold[OF "1.prems"(1) traced_def]
  show ?case
  proof (cases "done_flag traced")
    case True
    with step "1.prems"(2) have "fin = traced" "traces = [traced]" by simp_all
    moreover from "1.prems"(1) have "0 < nb_bounces - j" by simp
    ultimately show ?thesis using bounce_contract_done[OF True] by simp
  next
    case False
    obtain d st1 where h: "shoot_ray_hemisphere2 rnd traced = (d, st1)"
      by (cases "shoot_ray_hemisphere2 rnd traced")
    from shoot_ray_hemisphere2_seed_only[OF h] obtain a where st1: "st1 = traced\<lparr>seed := a\<rparr>"
      by blast
    obtain fin2 tr2
      where r: "bounce2_from rnd hdl (j + 1) (xyz traced) d st1 = (fin2, tr2)"
      by (cases "bounce2_from rnd hdl (j + 1) (xyz traced) d st1")
    from False step "1.prems"(2) r h have e: "fin = fin2" "traces = traced # tr2" by simp_all
    show ?thesis
    proof (cases "j + 1 < nb_bounces")
      case True
      have "bounce_contract (nb_bounces - (j + 1)) fin2 tr2"
        using "1.IH"[OF "1.prems"(1) traced_def False h[symmetric] True r] .
      moreover have "Suc (nb_bounces - (j + 1)) = nb_bounces - j" using "1.prems"(1) by simp
      ultimately show ?thesis using bounce_contract_cons[OF False] e by metis
    next
      case f: False
      with r have "fin2 = st1" "tr2 = []" by (simp_all add: bounce2_from_done)
      moreover from f "1.prems"(1) have "nb_bounces - j = Suc 0" by simp
      ultimately show ?thesis using e bounce_contract_last[of st1 traced] st1 by simp
    qed
  qed
qed

text \<open>
  C4. The bounce loop of a sample, in both files and from any start, makes at least one
  radiance query and at most 3, and it ends: \<open>bounce_from\<close> and \<open>bounce2_from\<close> are total
  functions, their recursion going down on \<open>nb_bounces - j\<close>. It stops at the first
  query that sets \<^verbatim>\<open>done\<close>, or after the third; the \<^verbatim>\<open>accum_color\<close> it leaves is the one
  the last query left.
\<close>

theorem bounce_budget:
  "bounce_contract 3 (fst (snd (bounce_from rnd hdl u 0 ro rd s st)))
      (snd (snd (bounce_from rnd hdl u 0 ro rd s st))) \<and>
   bounce_contract 3 (fst (bounce2_from rnd hdl 0 ro rd st)) (snd (bounce2_from rnd hdl 0 ro rd st)) \<and>
   bounce_contract 3 (fst (snd (sample_path rnd params u idx_x idx_y s)))
      (snd (snd (sample_path rnd params u idx_x idx_y s))) \<and>
   bounce_contract 3 (fst (snd (sample_path2 rnd params u idx_x idx_y s)))
      (snd (snd (sample_path2 rnd params u idx_x idx_y s)))"
proof -
  have z: "0 < nb_bounces" by (simp add: nb_bounces_def)
  have a: "bounce_contract 3 (fst (snd (bounce_from rnd hdl u 0 ro rd s st)))
      (snd (snd (bounce_from rnd hdl u 0 ro rd s st)))" for hdl ro rd s st
    using bounce_from_contract[OF z, of rnd hdl u ro rd s st]
    by (cases "bounce_from rnd hdl u 0 ro rd s st") (simp add: nb_bounces_def)
  have b: "bounce_contract 3 (fst (bounce2_from rnd hdl 0 ro rd st))
      (snd (bounce2_from rnd hdl 0 ro rd st))" for hdl ro rd st
    using bounce2_from_contract[OF z, of rnd hdl ro rd st]
    by (cases "bounce2_from rnd hdl 0 ro rd st") (simp add: nb_bounces_def)
  have c: "bounce_contract 3 (fst (snd (sample_path rnd params u idx_x idx_y s)))
      (snd (snd (sample_path rnd params u idx_x idx_y s)))"
    by (cases "antialiasing_jitter rnd s") (simp add: sample_path_def Let_def a)
  have d: "bounce_contract 3 (fst (snd (sample_path2 rnd params u idx_x idx_y s)))
      (snd (snd (sample_path2 rnd params u idx_x idx_y s)))"
    by (cases "antialiasing_jitter2 rnd s") (simp add: sample_path2_def Let_def b split: prod.splits)
  from a b c d show ?thesis by blast
qed

subsection \<open>The colour mask\<close>

lemma shoot_ray_to_light_seed_only:
  "\<exists>s. fst (snd (shoot_ray_to_light rnd hdl u st)) = st\<lparr>seed := s\<rparr>"
proof -
  obtain c st' probes where a: "shoot_ray_to_light_from rnd hdl u 0 st = (c, st', probes)"
    by (cases "shoot_ray_to_light_from rnd hdl u 0 st")
  have "0 < count" by (simp add: count_def)
  from shoot_ray_to_light_from_contract[OF this a] show ?thesis
    by (simp add: shoot_ray_to_light_def a)
qed

lemma light_then_accumulate_mask:
  "mask_color (case shoot_ray_to_light rnd hdl u s1 of
                 (c, s2, probes) \<Rightarrow> s2\<lparr>accum_color := f c s2\<rparr>) = mask_color s1"
proof -
  obtain c s2 probes where e: "shoot_ray_to_light rnd hdl u s1 = (c, s2, probes)"
    by (cases "shoot_ray_to_light rnd hdl u s1")
  with shoot_ray_to_light_seed_only[of rnd hdl u s1] obtain s where "s2 = s1\<lparr>seed := s\<rparr>"
    by auto
  with e show ?thesis by simp
qed

lemma light2_then_accumulate_mask:
  "mask_color (case shoot_ray_to_light2 rnd hdl s1 of
                 (c, s2, probes) \<Rightarrow> s2\<lparr>accum_color := f c s2\<rparr>) = mask_color s1"
proof -
  obtain c s2 probes where e: "shoot_ray_to_light2_from rnd hdl 0 s1 = (c, s2, probes)"
    by (cases "shoot_ray_to_light2_from rnd hdl 0 s1")
  from shoot_ray_to_light2_from_fields[OF e] e show ?thesis
    by (simp add: shoot_ray_to_light2_def)
qed

lemma closesthit_radiance_mask:
  "mask_color (closesthit_radiance rnd hdl u h ro rd st) =
     (if emit (hg_material (rt_data h)) then mask_color st
      else mul3 (mask_color st) (diffuse_color (hg_material (rt_data h))))"
  by (simp add: closesthit_radiance_def Let_def light_then_accumulate_mask)

lemma closesthit_radiance2_mask:
  "mask_color (closesthit_radiance2 rnd hdl h ro rd st) =
     (if emit (hg_material (rt_data h)) then mask_color st
      else mul3 (mask_color st) (diffuse_color (hg_material (rt_data h))))"
  by (simp add: closesthit_radiance2_def Let_def light2_then_accumulate_mask)


lemma mul3_albedo:
  assumes "le3 (splat3 0) m" and "le3 (splat3 0) d" and "le3 d (splat3 1)"
  shows "le3 (mul3 m d) m \<and> le3 (splat3 0) (mul3 m d)"
proof -
  have "\<And>a b :: real. 0 \<le> a \<Longrightarrow> 0 \<le> b \<Longrightarrow> b \<le> 1 \<Longrightarrow> a * b \<le> a \<and> 0 \<le> a * b"
    by (simp add: mult_left_le)
  with assms show ?thesis
    by (simp add: le3_def mul3_def splat3_def)
qed

lemma le3_refl: "le3 a a"
  by (simp add: le3_def)

lemma trace_radiance_mask:
  assumes "albedo_in_unit hdl" and "le3 (splat3 0) (mask_color st)"
  shows "le3 (mask_color (trace_radiance rnd hdl u ro rd tmin tmax st)) (mask_color st) \<and>
         le3 (splat3 0) (mask_color (trace_radiance rnd hdl u ro rd tmin tmax st))"
proof (cases "radiance_hit hdl ro rd tmin tmax")
  case None
  with assms(2) show ?thesis
    by (simp add: trace_radiance_def miss_radiance_def le3_refl)
next
  case (Some h)
  with assms(1) have d: "le3 (splat3 0) (diffuse_color (hg_material (rt_data h)))"
    "le3 (diffuse_color (hg_material (rt_data h))) (splat3 1)"
    unfolding albedo_in_unit_def by blast+
  from mul3_albedo[OF assms(2) d] assms(2) Some show ?thesis
    by (simp add: trace_radiance_def closesthit_radiance_mask le3_refl)
qed

lemma trace_radiance2_mask:
  assumes "albedo_in_unit hdl" and "le3 (splat3 0) (mask_color st)"
  shows "le3 (mask_color (trace_radiance2 rnd hdl ro rd tmin tmax st)) (mask_color st) \<and>
         le3 (splat3 0) (mask_color (trace_radiance2 rnd hdl ro rd tmin tmax st))"
proof (cases "radiance_hit hdl ro rd tmin tmax")
  case None
  with assms(2) show ?thesis
    by (simp add: trace_radiance2_def miss_radiance_def le3_refl)
next
  case (Some h)
  with assms(1) have d: "le3 (splat3 0) (diffuse_color (hg_material (rt_data h)))"
    "le3 (diffuse_color (hg_material (rt_data h))) (splat3 1)"
    unfolding albedo_in_unit_def by blast+
  from mul3_albedo[OF assms(2) d] assms(2) Some show ?thesis
    by (simp add: trace_radiance2_def closesthit_radiance2_mask le3_refl)
qed

lemma bounce_from_masks:
  "albedo_in_unit hdl \<Longrightarrow> le3 (splat3 0) (mask_color st) \<Longrightarrow>
   bounce_from rnd hdl u j ro rd s st = (sf, fin, traces) \<Longrightarrow>
     nonincreasing (mask_color st # map mask_color traces)"
proof (induction rnd hdl u j ro rd s st arbitrary: sf fin traces rule: bounce_from.induct)
  case (1 rnd hdl u j ro rd s st)
  show ?case
  proof (cases "j < nb_bounces")
    case False
    with "1.prems"(3) show ?thesis by (simp add: bounce_from_done)
  next
    case True
    define traced where
      "traced = trace_radiance rnd hdl u ro rd (1 / 10 ^ 6) (10 ^ 16) (st\<lparr>done_flag := False\<rparr>)"
    note step = bounce_from_unfold[OF True traced_def, of s]
    have m: "le3 (mask_color traced) (mask_color st)" "le3 (splat3 0) (mask_color traced)"
      using trace_radiance_mask[OF "1.prems"(1), of "st\<lparr>done_flag := False\<rparr>"] "1.prems"(2)
      by (simp_all add: traced_def)
    show ?thesis
    proof (cases "done_flag traced")
      case True
      with step "1.prems"(3) have "traces = [traced]" by simp
      with m show ?thesis by simp
    next
      case False
      obtain d s' where h: "shoot_ray_hemisphere rnd (normal traced) s = (d, s')"
        by (cases "shoot_ray_hemisphere rnd (normal traced) s")
      obtain sf2 fin2 tr2 where
        r: "bounce_from rnd hdl u (j + 1) (xyz traced) d (seed traced) traced = (sf2, fin2, tr2)"
        by (cases "bounce_from rnd hdl u (j + 1) (xyz traced) d (seed traced) traced")
      from False step "1.prems"(3) r h have e: "traces = traced # tr2" by simp
      have "nonincreasing (mask_color traced # map mask_color tr2)"
        using "1.IH"[OF True traced_def False h[symmetric] "1.prems"(1) m(2) r] .
      with m e show ?thesis by simp
    qed
  qed
qed

lemma bounce2_from_masks:
  "albedo_in_unit hdl \<Longrightarrow> le3 (splat3 0) (mask_color st) \<Longrightarrow>
   bounce2_from rnd hdl j ro rd st = (fin, traces) \<Longrightarrow>
     nonincreasing (mask_color st # map mask_color traces)"
proof (induction rnd hdl j ro rd st arbitrary: fin traces rule: bounce2_from.induct)
  case (1 rnd hdl j ro rd st)
  show ?case
  proof (cases "j < nb_bounces")
    case False
    with "1.prems"(3) show ?thesis by (simp add: bounce2_from_done)
  next
    case True
    define traced where
      "traced = trace_radiance2 rnd hdl ro rd (1 / 100) (10 ^ 16) (st\<lparr>done_flag := False\<rparr>)"
    note step = bounce2_from_unfold[OF True traced_def]
    have m: "le3 (mask_color traced) (mask_color st)" "le3 (splat3 0) (mask_color traced)"
      using trace_radiance2_mask[OF "1.prems"(1), of "st\<lparr>done_flag := False\<rparr>"] "1.prems"(2)
      by (simp_all add: traced_def)
    show ?thesis
    proof (cases "done_flag traced")
      case True
      with step "1.prems"(3) have "traces = [traced]" by simp
      with m show ?thesis by simp
    next
      case False
      obtain d st1 where h: "shoot_ray_hemisphere2 rnd traced = (d, st1)"
        by (cases "shoot_ray_hemisphere2 rnd traced")
      from shoot_ray_hemisphere2_seed_only[OF h] obtain a where st1: "st1 = traced\<lparr>seed := a\<rparr>"
        by blast
      obtain fin2 tr2 where
        r: "bounce2_from rnd hdl (j + 1) (xyz traced) d st1 = (fin2, tr2)"
        by (cases "bounce2_from rnd hdl (j + 1) (xyz traced) d st1")
      from False step "1.prems"(3) r h have e: "traces = traced # tr2" by simp
      have "le3 (splat3 0) (mask_color st1)" using m(2) st1 by simp
      from "1.IH"[OF True traced_def False h[symmetric] "1.prems"(1) this r]
      have "nonincreasing (mask_color traced # map mask_color tr2)" using st1 by simp
      with m e show ?thesis by simp
    qed
  qed
qed

text \<open>
  C8. When every diffuse colour of the scene has its channels in \<open>[0,1]\<close>, the mask of a
  sample starts at \<open>(1,1,1)\<close> and, along the radiance queries of the sample, each state
  has a mask that is channel by channel at most the mask before that query.
\<close>

theorem mask_nonincreasing:
  assumes "albedo_in_unit (handle params)"
  shows "mask_color (Intersection_decl u) = splat3 1 \<and>
         nonincreasing (splat3 1 #
            map mask_color (snd (snd (sample_path rnd params u idx_x idx_y s)))) \<and>
         nonincreasing (splat3 1 #
            map mask_color (snd (snd (sample_path2 rnd params u idx_x idx_y s))))"
proof -
  let ?st = "(Intersection_decl u)\<lparr>seed := s\<rparr>"
  have i: "mask_color ?st = splat3 1" "le3 (splat3 0) (mask_color ?st)"
    by (simp_all add: Intersection_decl_def le3_def splat3_def)
  have a: "nonincreasing (splat3 1 #
            map mask_color (snd (snd (sample_path rnd params u idx_x idx_y s))))"
  proof -
    obtain jt s' where j: "antialiasing_jitter rnd s = (jt, s')"
      by (cases "antialiasing_jitter rnd s")
    obtain sf fin traces where
      b: "bounce_from rnd (handle params) u 0 (eye params)
            (camera_direction params idx_x idx_y jt) s' ?st = (sf, fin, traces)"
      by (cases "bounce_from rnd (handle params) u 0 (eye params)
            (camera_direction params idx_x idx_y jt) s' ?st")
    from bounce_from_masks[OF assms i(2) b] i(1) show ?thesis
      by (simp add: sample_path_def Let_def j b)
  qed
  have b: "nonincreasing (splat3 1 #
            map mask_color (snd (snd (sample_path2 rnd params u idx_x idx_y s))))"
  proof -
    obtain jt s' where j: "antialiasing_jitter2 rnd s = (jt, s')"
      by (cases "antialiasing_jitter2 rnd s")
    obtain fin traces where
      b: "bounce2_from rnd (handle params) 0 (eye params)
            (camera_direction params idx_x idx_y jt) ?st = (fin, traces)"
      by (cases "bounce2_from rnd (handle params) 0 (eye params)
            (camera_direction params idx_x idx_y jt) ?st")
    from bounce2_from_masks[OF assms i(2) b] i(1) show ?thesis
      by (simp add: sample_path2_def Let_def j b)
  qed
  from a b show ?thesis by (simp add: Intersection_decl_def)
qed

theorem mask_nonincreasing_witness:
  "albedo_in_unit (handle test_params) \<and>
   nonincreasing (splat3 1 #
      map mask_color (snd (snd (sample_path lcg_rnd test_params first_state 0 0 0)))) \<and>
   nonincreasing (splat3 1 #
      map mask_color (snd (snd (sample_path2 lcg_rnd test_params first_state 0 0 0))))"
proof -
  have h: "albedo_in_unit (handle test_params)"
    by (simp add: albedo_in_unit_def test_params_def lamp_then_wall_def hit_on_def
          wall_material_def le3_def splat3_def)
  from mask_nonincreasing[OF h, of first_state lcg_rnd 0 0 0] h show ?thesis by blast
qed

subsection \<open>The shading normal\<close>

lemma light_then_accumulate:
  "\<exists>s a. (case shoot_ray_to_light rnd hdl u s1 of
            (c, s2, probes) \<Rightarrow> s2\<lparr>accum_color := f c s2\<rparr>) = s1\<lparr>seed := s, accum_color := a\<rparr>"
proof -
  obtain c s2 probes where e: "shoot_ray_to_light rnd hdl u s1 = (c, s2, probes)"
    by (cases "shoot_ray_to_light rnd hdl u s1")
  with shoot_ray_to_light_seed_only[of rnd hdl u s1] obtain s where "s2 = s1\<lparr>seed := s\<rparr>"
    by auto
  with e show ?thesis by auto
qed

lemma light2_then_accumulate_normal:
  "normal (case shoot_ray_to_light2 rnd hdl s1 of
             (c, s2, probes) \<Rightarrow> s2\<lparr>accum_color := f c s2\<rparr>) = normal s1"
proof -
  obtain c s2 probes where e: "shoot_ray_to_light2_from rnd hdl 0 s1 = (c, s2, probes)"
    by (cases "shoot_ray_to_light2_from rnd hdl 0 s1")
  from shoot_ray_to_light2_from_fields[OF e] e show ?thesis
    by (simp add: shoot_ray_to_light2_def)
qed

lemma closesthit_radiance_normal:
  assumes "emit (hg_material (rt_data h)) = False"
  shows "normal (closesthit_radiance rnd hdl u h ro rd st) =
     barycentric_normal (hit_point ro rd h) (tri_n h 0) (tri_n h 1) (tri_n h 2)
        (tri_v h 0) (tri_v h 1) (tri_v h 2)"
proof -
  define s1 where "s1 = st\<lparr>xyz := hit_point ro rd h,
      normal := barycentric_normal (hit_point ro rd h) (tri_n h 0) (tri_n h 1) (tri_n h 2)
        (tri_v h 0) (tri_v h 1) (tri_v h 2),
      mask_color := mul3 (mask_color st) (diffuse_color (hg_material (rt_data h)))\<rparr>"
  have "closesthit_radiance rnd hdl u h ro rd st =
     (case shoot_ray_to_light rnd hdl u s1 of
        (c, s2, probes) \<Rightarrow> s2\<lparr>accum_color := add3 (accum_color s2) (mul3 c (mask_color s2))\<rparr>)"
    using assms
    by (simp add: closesthit_radiance_def Let_def s1_def hit_point_def tri_n_def tri_v_def)
  moreover obtain s a where "(case shoot_ray_to_light rnd hdl u s1 of
        (c, s2, probes) \<Rightarrow> s2\<lparr>accum_color := add3 (accum_color s2) (mul3 c (mask_color s2))\<rparr>)
      = s1\<lparr>seed := s, accum_color := a\<rparr>"
    using light_then_accumulate[where rnd = rnd and hdl = hdl and u = u and ?s1.0 = s1
        and f = "\<lambda>c s2. add3 (accum_color s2) (mul3 c (mask_color s2))"] by blast
  ultimately show ?thesis by (simp add: s1_def)
qed

lemma barycentric_normal2_same: "barycentric_normal2 st v1 v2 v3 = normal st"
  by (cases "normal st") (simp add: barycentric_normal2_def Let_def scale3_def)

lemma closesthit_radiance2_normal:
  assumes "emit (hg_material (rt_data h)) = False"
  shows "normal (closesthit_radiance2 rnd hdl h ro rd st) =
     faceforward (normalize3 (cross (tri_e1 h) (tri_e2 h))) (neg3 rd)
       (normalize3 (cross (tri_e1 h) (tri_e2 h)))"
  using assms
  by (simp add: closesthit_radiance2_def Let_def light2_then_accumulate_normal
        barycentric_normal2_same tri_e1_def tri_e2_def tri_v_def)

lemma barycentric_weights:
  fixes d00 d01 d11 d20 d21 :: real
  assumes "d00 * d11 - d01 * d01 \<noteq> 0"
  defines "w \<equiv> (d00 * d21 - d01 * d20) / (d00 * d11 - d01 * d01)"
    and "v \<equiv> (d11 * d20 - d01 * d21) / (d00 * d11 - d01 * d01)"
  shows "v * d00 + w * d01 = d20 \<and> v * d01 + w * d11 = d21"
proof -
  define q where "q = d00 * d11 - d01 * d01"
  have q: "q \<noteq> 0" using assms(1) by (simp add: q_def)
  have "v * d00 + w * d01 = (d20 * q) / q"
    unfolding v_def w_def q_def[symmetric]
    by (simp add: add_divide_distrib[symmetric] q_def algebra_simps)
  moreover have "v * d01 + w * d11 = (d21 * q) / q"
    unfolding v_def w_def q_def[symmetric]
    by (simp add: add_divide_distrib[symmetric] q_def algebra_simps)
  ultimately show ?thesis using q by simp
qed

text \<open>
  C5, as the two files have it. On a hit of a surface that does not emit, on a triangle
  whose edges are not parallel: \<^verbatim>\<open>shader.cu\<close> stores the normal \<open>u n\<^sub>1 + v n\<^sub>2 + w n\<^sub>3\<close> where
  \<open>v\<close> and \<open>w\<close> solve the two equations of the dot products of the edges with the hit
  point and \<open>u + v + w = 1\<close>; \<^verbatim>\<open>shader2.cu\<close> stores the normalised cross product of the
  edges, face-forwarded against the ray, and reads no vertex normal.
\<close>

theorem shading_normal:
  assumes "emit (hg_material (rt_data h)) = False" and "tri_denom h \<noteq> 0"
  shows "(\<exists>u v w. u + v + w = 1 \<and>
            v * dot (tri_e1 h) (tri_e1 h) + w * dot (tri_e1 h) (tri_e2 h) =
              dot (sub3 (hit_point ro rd h) (tri_v h 0)) (tri_e1 h) \<and>
            v * dot (tri_e1 h) (tri_e2 h) + w * dot (tri_e2 h) (tri_e2 h) =
              dot (sub3 (hit_point ro rd h) (tri_v h 0)) (tri_e2 h) \<and>
            normal (closesthit_radiance rnd hdl u0 h ro rd st) =
              add3 (add3 (scale3 u (tri_n h 0)) (scale3 v (tri_n h 1))) (scale3 w (tri_n h 2))) \<and>
         normal (closesthit_radiance2 rnd hdl h ro rd st) =
           faceforward (normalize3 (cross (tri_e1 h) (tri_e2 h))) (neg3 rd)
             (normalize3 (cross (tri_e1 h) (tri_e2 h)))"
proof -
  define d00 where "d00 = dot (tri_e1 h) (tri_e1 h)"
  define d01 where "d01 = dot (tri_e1 h) (tri_e2 h)"
  define d11 where "d11 = dot (tri_e2 h) (tri_e2 h)"
  define d20 where "d20 = dot (sub3 (hit_point ro rd h) (tri_v h 0)) (tri_e1 h)"
  define d21 where "d21 = dot (sub3 (hit_point ro rd h) (tri_v h 0)) (tri_e2 h)"
  define w where "w = (d00 * d21 - d01 * d20) / (d00 * d11 - d01 * d01)"
  define v where "v = (d11 * d20 - d01 * d21) / (d00 * d11 - d01 * d01)"
  have q: "d00 * d11 - d01 * d01 \<noteq> 0"
    using assms(2) by (simp add: tri_denom_def d00_def d01_def d11_def)
  have n: "normal (closesthit_radiance rnd hdl u0 h ro rd st) =
      add3 (add3 (scale3 (1 - v - w) (tri_n h 0)) (scale3 v (tri_n h 1))) (scale3 w (tri_n h 2))"
    unfolding closesthit_radiance_normal[OF assms(1)]
    by (simp add: barycentric_normal_def Let_def v_def w_def d00_def d01_def d11_def d20_def
          d21_def tri_e1_def tri_e2_def)
  from barycentric_weights[OF q, where ?d20.0 = d20 and ?d21.0 = d21]
  have s: "v * d00 + w * d01 = d20 \<and> v * d01 + w * d11 = d21"
    by (simp add: v_def w_def)
  have "(1 - v - w) + v + w = 1" by simp
  with s n have "\<exists>u v w. u + v + w = 1 \<and> v * d00 + w * d01 = d20 \<and> v * d01 + w * d11 = d21 \<and>
      normal (closesthit_radiance rnd hdl u0 h ro rd st) =
              add3 (add3 (scale3 u (tri_n h 0)) (scale3 v (tri_n h 1))) (scale3 w (tri_n h 2))"
    by blast
  with closesthit_radiance2_normal[OF assms(1)] show ?thesis
    unfolding d00_def d01_def d11_def d20_def d21_def by blast
qed

lemma smooth_hit_triangle:
  "tri_v smooth_hit 0 = make_float3 0 0 0" "tri_v smooth_hit (Suc 0) = make_float3 1 0 0"
  "tri_v smooth_hit 2 = make_float3 0 1 0"
  "tri_n smooth_hit 0 = make_float3 0 0 1"
  "tri_n smooth_hit (Suc 0) = make_float3 (3 / 5) 0 (4 / 5)"
  "tri_n smooth_hit 2 = make_float3 0 (3 / 5) (4 / 5)"
  "tri_e1 smooth_hit = make_float3 1 0 0" "tri_e2 smooth_hit = make_float3 0 1 0"
  "emit (hg_material (rt_data smooth_hit)) = False"
  "hit_point (make_float3 (1 / 4) (1 / 4) 1) (make_float3 0 0 (- 1)) smooth_hit =
     make_float3 (1 / 4) (1 / 4) 0"
  by (simp_all add: tri_v_def tri_n_def tri_e1_def tri_e2_def smooth_hit_def unit_triangle_def
        sub3_def wall_material_def hit_point_def add3_def scale3_def)

lemma smooth_hit_interpolated:
  "barycentric_normal (make_float3 (1 / 4) (1 / 4) 0)
     (make_float3 0 0 1) (make_float3 (3 / 5) 0 (4 / 5)) (make_float3 0 (3 / 5) (4 / 5))
     (make_float3 0 0 0) (make_float3 1 0 0) (make_float3 0 1 0) =
   make_float3 (3 / 20) (3 / 20) (9 / 10)"
  by (simp add: barycentric_normal_def Let_def sub3_def dot_def add3_def scale3_def)

theorem shading_normal_witness:
  "emit (hg_material (rt_data smooth_hit)) = False \<and> tri_denom smooth_hit \<noteq> 0 \<and>
   (\<exists>u v w. u + v + w = 1 \<and> v * 1 + w * 0 = 1 / 4 \<and> v * 0 + w * 1 = (1 / 4 :: real) \<and>
      normal (closesthit_radiance lcg_rnd lamp_then_wall first_state smooth_hit
                (make_float3 (1 / 4) (1 / 4) 1) (make_float3 0 0 (- 1)) first_state) =
        add3 (add3 (scale3 u (make_float3 0 0 1)) (scale3 v (make_float3 (3 / 5) 0 (4 / 5))))
          (scale3 w (make_float3 0 (3 / 5) (4 / 5)))) \<and>
   normal (closesthit_radiance2 lcg_rnd lamp_then_wall smooth_hit
             (make_float3 (1 / 4) (1 / 4) 1) (make_float3 0 0 (- 1)) first_state) =
     make_float3 0 0 1"
proof -
  have h: "emit (hg_material (rt_data smooth_hit)) = False" by (simp add: smooth_hit_triangle)
  have d: "tri_denom smooth_hit \<noteq> 0"
    by (simp add: tri_denom_def smooth_hit_triangle dot_def)
  have c: "cross (make_float3 1 0 0) (make_float3 0 1 0) = make_float3 0 0 1"
    by (simp add: cross_def)
  have f: "faceforward (normalize3 (make_float3 0 0 1)) (neg3 (make_float3 0 0 (- 1)))
             (normalize3 (make_float3 0 0 1)) = make_float3 0 0 1"
    by (simp add: faceforward_def normalize3_def dot_def scale3_def neg3_def copysign1_def)
  from shading_normal[OF h d, of "make_float3 (1 / 4) (1 / 4) 1" "make_float3 0 0 (- 1)"
      lcg_rnd lamp_then_wall first_state first_state] h d
  show ?thesis
    by (simp add: smooth_hit_triangle dot_def sub3_def c f)
qed

text \<open>
  C5 as it is stated fails on \<^verbatim>\<open>shader2.cu\<close>. On the triangle \<open>smooth_hit\<close>, hit at
  \<open>(1/4, 1/4, 0)\<close> from above, the interpolation of the vertex normals is
  \<open>(3/20, 3/20, 9/10)\<close>, which is what \<^verbatim>\<open>shader.cu\<close> stores; \<^verbatim>\<open>shader2.cu\<close> stores the face
  normal \<open>(0,0,1)\<close>.
\<close>

theorem shader2_flat_normal:
  "emit (hg_material (rt_data smooth_hit)) = False \<and>
   normal (closesthit_radiance2 lcg_rnd lamp_then_wall smooth_hit
             (make_float3 (1 / 4) (1 / 4) 1) (make_float3 0 0 (- 1)) first_state) =
     make_float3 0 0 1 \<and>
   barycentric_normal (hit_point (make_float3 (1 / 4) (1 / 4) 1) (make_float3 0 0 (- 1)) smooth_hit)
     (tri_n smooth_hit 0) (tri_n smooth_hit 1) (tri_n smooth_hit 2)
     (tri_v smooth_hit 0) (tri_v smooth_hit 1) (tri_v smooth_hit 2) =
     make_float3 (3 / 20) (3 / 20) (9 / 10) \<and>
   normal (closesthit_radiance lcg_rnd lamp_then_wall first_state smooth_hit
             (make_float3 (1 / 4) (1 / 4) 1) (make_float3 0 0 (- 1)) first_state) =
     make_float3 (3 / 20) (3 / 20) (9 / 10)"
proof -
  have h: "emit (hg_material (rt_data smooth_hit)) = False" by (simp add: smooth_hit_triangle)
  have c: "cross (make_float3 1 0 0) (make_float3 0 1 0) = make_float3 0 0 1"
    by (simp add: cross_def)
  have f: "faceforward (normalize3 (make_float3 0 0 1)) (neg3 (make_float3 0 0 (- 1)))
             (normalize3 (make_float3 0 0 1)) = make_float3 0 0 1"
    by (simp add: faceforward_def normalize3_def dot_def scale3_def neg3_def copysign1_def)
  show ?thesis
    by (simp add: closesthit_radiance2_normal[OF h] closesthit_radiance_normal[OF h]
          smooth_hit_triangle smooth_hit_interpolated c f)
qed

subsection \<open>Two runs of the ray generation\<close>

text \<open>
  The uninitialised fields of a declared \<^verbatim>\<open>Intersection\<close> and the contents of the buffers
  are the only inputs of \<^verbatim>\<open>__raygen__rg\<close> outside the pixel, the frame index, the sample
  count, the scene and the camera. The lemmas below follow two runs that differ in them
  through every loop.
\<close>

lemma fresh_probe_indep:
  "hit (trace_occlusion hdl ro rd tmin tmax (Intersection_decl u)) =
   hit (trace_occlusion hdl ro rd tmin tmax (Intersection_decl u'))"
  "hit (trace_occlusion hdl ro rd tmin tmax (Intersection_decl u)) \<Longrightarrow>
   material (trace_occlusion hdl ro rd tmin tmax (Intersection_decl u)) =
   material (trace_occlusion hdl ro rd tmin tmax (Intersection_decl u'))"
  by (auto simp: trace_occlusion_def miss_occlusion_def closesthit_occlusion_def
        Intersection_decl_def split: option.splits if_splits)

lemma shoot_ray_to_light_from_indep:
  "normal a = normal b \<Longrightarrow> xyz a = xyz b \<Longrightarrow> seed a = seed b \<Longrightarrow>
   shoot_ray_to_light_from rnd hdl u i a = (c, a', pa) \<Longrightarrow>
   shoot_ray_to_light_from rnd hdl u' i b = (c', b', pb) \<Longrightarrow>
     c = c' \<and> (\<exists>s. a' = a\<lparr>seed := s\<rparr> \<and> b' = b\<lparr>seed := s\<rparr>)"
proof (induction rnd hdl u i a arbitrary: b c a' pa c' b' pb rule: shoot_ray_to_light_from.induct)
  case (1 rnd hdl u i a)
  show ?case
  proof (cases "i < count")
    case False
    with "1.prems" show ?thesis
      by (auto simp: shoot_ray_to_light_from_done intro: exI[of _ "seed a"])
  next
    case True
    obtain d s' where h: "shoot_ray_hemisphere rnd (normal a) (seed a) = (d, s')"
      by (cases "shoot_ray_hemisphere rnd (normal a) (seed a)")
    with "1.prems"(1,3) have hb: "shoot_ray_hemisphere rnd (normal b) (seed b) = (d, s')"
      by simp
    define ta where
      "ta = trace_occlusion hdl (xyz a) d (1 / 10 ^ 6) (10 ^ 16) (Intersection_decl u)"
    define tb where
      "tb = trace_occlusion hdl (xyz b) d (1 / 10 ^ 6) (10 ^ 16) (Intersection_decl u')"
    have hh: "hit ta = hit tb" and mm: "hit ta \<Longrightarrow> material ta = material tb"
      unfolding ta_def tb_def "1.prems"(2)[symmetric] by (rule fresh_probe_indep)+
    note sa = shoot_ray_to_light_from_unfold[OF True h ta_def]
    note sb = shoot_ray_to_light_from_unfold[OF True hb tb_def]
    show ?thesis
    proof (cases "hit ta")
      case t: True
      with hh have "hit tb" by simp
      with sa sb t "1.prems"(4,5) mm[OF t] "1.prems"(1) show ?thesis by auto
    next
      case f: False
      with hh have fb: "\<not> hit tb" by simp
      obtain c2 a2 p2 where
        ra: "shoot_ray_to_light_from rnd hdl u (i + 1) (a\<lparr>seed := s'\<rparr>) = (c2, a2, p2)"
        by (cases "shoot_ray_to_light_from rnd hdl u (i + 1) (a\<lparr>seed := s'\<rparr>)")
      obtain c3 b3 p3 where
        rb: "shoot_ray_to_light_from rnd hdl u' (i + 1) (b\<lparr>seed := s'\<rparr>) = (c3, b3, p3)"
        by (cases "shoot_ray_to_light_from rnd hdl u' (i + 1) (b\<lparr>seed := s'\<rparr>)")
      have "c2 = c3 \<and> (\<exists>s. a2 = a\<lparr>seed := s'\<rparr>\<lparr>seed := s\<rparr> \<and> b3 = b\<lparr>seed := s'\<rparr>\<lparr>seed := s\<rparr>)"
        using "1.IH"[OF True h[symmetric] refl _ _ _ _ _ ra rb] f "1.prems"(1,2)
        by (simp add: ta_def)
      with sa sb f fb "1.prems"(4,5) ra rb show ?thesis by auto
    qed
  qed
qed

lemma closesthit_radiance_diffuse:
  assumes "emit (hg_material (rt_data h)) = False"
  shows "closesthit_radiance rnd hdl u h ro rd st =
     (case shoot_ray_to_light rnd hdl u (shade_point h ro rd st) of
        (c, s2, probes) \<Rightarrow> s2\<lparr>accum_color := add3 (accum_color s2) (mul3 c (mask_color s2))\<rparr>)"
  using assms
  by (simp add: closesthit_radiance_def Let_def shade_point_def hit_point_def tri_n_def tri_v_def)

lemma closesthit_radiance_indep:
  assumes "same_path a b"
  shows "same_path (closesthit_radiance rnd hdl u h ro rd a)
                   (closesthit_radiance rnd hdl u' h ro rd b) \<and>
         done_flag (closesthit_radiance rnd hdl u h ro rd a) =
           (emit (hg_material (rt_data h)) \<or> done_flag a) \<and>
         (emit (hg_material (rt_data h)) \<or>
          same_point (closesthit_radiance rnd hdl u h ro rd a)
                     (closesthit_radiance rnd hdl u' h ro rd b))"
proof (cases "emit (hg_material (rt_data h))")
  case True
  with assms show ?thesis
    by (simp add: closesthit_radiance_def Let_def same_path_def)
next
  case False
  then have e: "emit (hg_material (rt_data h)) = False" by simp
  let ?pa = "shade_point h ro rd a" and ?pb = "shade_point h ro rd b"
  obtain c a' pr where ra: "shoot_ray_to_light_from rnd hdl u 0 ?pa = (c, a', pr)"
    by (cases "shoot_ray_to_light_from rnd hdl u 0 ?pa")
  obtain c' b' pr' where rb: "shoot_ray_to_light_from rnd hdl u' 0 ?pb = (c', b', pr')"
    by (cases "shoot_ray_to_light_from rnd hdl u' 0 ?pb")
  have "normal ?pa = normal ?pb" "xyz ?pa = xyz ?pb" "seed ?pa = seed ?pb"
    using assms by (simp_all add: shade_point_def same_path_def)
  from shoot_ray_to_light_from_indep[OF this ra rb]
  obtain s where r: "c = c'" "a' = ?pa\<lparr>seed := s\<rparr>" "b' = ?pb\<lparr>seed := s\<rparr>" by blast
  have ca: "closesthit_radiance rnd hdl u h ro rd a =
      a'\<lparr>accum_color := add3 (accum_color a') (mul3 c (mask_color a'))\<rparr>"
    by (simp add: closesthit_radiance_diffuse[OF e] shoot_ray_to_light_def ra)
  have cb: "closesthit_radiance rnd hdl u' h ro rd b =
      b'\<lparr>accum_color := add3 (accum_color b') (mul3 c' (mask_color b'))\<rparr>"
    by (simp add: closesthit_radiance_diffuse[OF e] shoot_ray_to_light_def rb)
  from assms False show ?thesis
    unfolding ca cb r by (simp add: same_path_def same_point_def shade_point_def)
qed

lemma trace_radiance_indep:
  assumes "same_path a b" and "done_flag a = False"
  shows "same_path (trace_radiance rnd hdl u ro rd tmin tmax a)
                   (trace_radiance rnd hdl u' ro rd tmin tmax b) \<and>
         (done_flag (trace_radiance rnd hdl u ro rd tmin tmax a) \<or>
          same_point (trace_radiance rnd hdl u ro rd tmin tmax a)
                     (trace_radiance rnd hdl u' ro rd tmin tmax b))"
proof (cases "radiance_hit hdl ro rd tmin tmax")
  case None
  with assms(1) show ?thesis
    by (simp add: trace_radiance_def miss_radiance_def same_path_def)
next
  case (Some h)
  with closesthit_radiance_indep[OF assms(1), of rnd hdl u h ro rd u'] assms(2)
  show ?thesis by (auto simp: trace_radiance_def)
qed

lemma bounce_from_indep:
  "same_path a b \<Longrightarrow>
   bounce_from rnd hdl u j ro rd s a = (sf, fin, tr) \<Longrightarrow>
   bounce_from rnd hdl u' j ro rd s b = (sf', fin', tr') \<Longrightarrow>
     sf = sf' \<and> same_path fin fin'"
proof (induction rnd hdl u j ro rd s a arbitrary: b sf fin tr sf' fin' tr' rule: bounce_from.induct)
  case (1 rnd hdl u j ro rd s a)
  show ?case
  proof (cases "j < nb_bounces")
    case False
    with "1.prems" show ?thesis by (simp add: bounce_from_done)
  next
    case True
    define ta where
      "ta = trace_radiance rnd hdl u ro rd (1 / 10 ^ 6) (10 ^ 16) (a\<lparr>done_flag := False\<rparr>)"
    define tb where
      "tb = trace_radiance rnd hdl u' ro rd (1 / 10 ^ 6) (10 ^ 16) (b\<lparr>done_flag := False\<rparr>)"
    have "same_path (a\<lparr>done_flag := False\<rparr>) (b\<lparr>done_flag := False\<rparr>)"
      using "1.prems"(1) by (simp add: same_path_def)
    from trace_radiance_indep[OF this, of rnd hdl u ro rd "1 / 10 ^ 6" "10 ^ 16" u']
    have t: "same_path ta tb" "done_flag ta \<or> same_point ta tb"
      by (simp_all add: ta_def tb_def)
    then have dd: "done_flag ta = done_flag tb" by (simp add: same_path_def)
    note sa = bounce_from_unfold[OF True ta_def, of s]
    note sb = bounce_from_unfold[OF True tb_def, of s]
    show ?thesis
    proof (cases "done_flag ta")
      case d: True
      with dd sa sb "1.prems"(2,3) t(1) show ?thesis by simp
    next
      case f: False
      with t(2) have pt: "normal ta = normal tb" "xyz ta = xyz tb"
        by (simp_all add: same_point_def)
      from t(1) have sd: "seed ta = seed tb" by (simp add: same_path_def)
      obtain d s' where h: "shoot_ray_hemisphere rnd (normal ta) s = (d, s')"
        by (cases "shoot_ray_hemisphere rnd (normal ta) s")
      obtain sf2 fin2 tr2 where
        ra: "bounce_from rnd hdl u (j + 1) (xyz ta) d (seed ta) ta = (sf2, fin2, tr2)"
        by (cases "bounce_from rnd hdl u (j + 1) (xyz ta) d (seed ta) ta")
      obtain sf3 fin3 tr3 where
        rb: "bounce_from rnd hdl u' (j + 1) (xyz ta) d (seed ta) tb = (sf3, fin3, tr3)"
        by (cases "bounce_from rnd hdl u' (j + 1) (xyz ta) d (seed ta) tb")
      have "sf2 = sf3 \<and> same_path fin2 fin3"
        using "1.IH"[OF True ta_def f h[symmetric] t(1) ra rb] .
      moreover from f sa "1.prems"(2) ra h have "sf = sf2" "fin = fin2" by simp_all
      moreover from f dd sb "1.prems"(3) rb h pt sd have "sf' = sf3" "fin' = fin3" by simp_all
      ultimately show ?thesis by simp
    qed
  qed
qed


lemma trace_occlusion_indep:
  assumes "same_path a b"
  shows "same_path (trace_occlusion hdl ro rd tmin tmax a) (trace_occlusion hdl ro rd tmin tmax b)"
  using assms
  by (simp add: trace_occlusion_def miss_occlusion_def closesthit_occlusion_def same_path_def
        split: option.splits)

lemma shoot_ray_to_light2_from_indep:
  "same_path a b \<Longrightarrow> same_point a b \<Longrightarrow>
   shoot_ray_to_light2_from rnd hdl i a = (c, a', pa) \<Longrightarrow>
   shoot_ray_to_light2_from rnd hdl i b = (c', b', pb) \<Longrightarrow>
     c = c' \<and> same_path a' b' \<and> same_point a' b'"
proof (induction rnd hdl i a arbitrary: b c a' pa c' b' pb rule: shoot_ray_to_light2_from.induct)
  case (1 rnd hdl i a)
  show ?case
  proof (cases "i < count")
    case False
    with "1.prems" show ?thesis by (simp add: shoot_ray_to_light2_from_done)
  next
    case True
    from "1.prems"(1,2) have ab: "normal a = normal b" "xyz a = xyz b" "seed a = seed b"
      by (simp_all add: same_path_def same_point_def)
    define d where "d = fst (shoot_ray_hemisphere2 rnd a)"
    define a1 where "a1 = a\<lparr>seed := snd (draw3 rnd (seed a))\<rparr>"
    define b1 where "b1 = b\<lparr>seed := snd (draw3 rnd (seed a))\<rparr>"
    have ha: "shoot_ray_hemisphere2 rnd a = (d, a1)"
      by (simp add: d_def a1_def shoot_ray_hemisphere2_draw3)
    have hb: "shoot_ray_hemisphere2 rnd b = (d, b1)"
      by (simp add: d_def b1_def shoot_ray_hemisphere2_draw3 ab)
    define qa where "qa = trace_occlusion hdl (xyz a1) d (1 / 100) (10 ^ 16) a1"
    define qb where "qb = trace_occlusion hdl (xyz b1) d (1 / 100) (10 ^ 16) b1"
    have x1: "xyz a1 = xyz b1" by (simp add: a1_def b1_def ab)
    have "same_path a1 b1" using "1.prems"(1) by (simp add: a1_def b1_def same_path_def)
    from trace_occlusion_indep[OF this, of hdl "xyz a1" d "1 / 100" "10 ^ 16"]
    have q: "same_path qa qb" by (simp add: qa_def qb_def x1)
    have qp: "same_point qa qb"
      by (simp add: same_point_def qa_def qb_def trace_occlusion_fields a1_def b1_def ab)
    from q have hh: "hit qa = hit qb" by (simp add: same_path_def)
    note sa = shoot_ray_to_light2_from_unfold[OF True ha qa_def]
    note sb = shoot_ray_to_light2_from_unfold[OF True hb qb_def]
    show ?thesis
    proof (cases "hit qa")
      case t: True
      with q have "material qa = material qb" by (simp add: same_path_def)
      moreover from qp have "normal qa = normal qb" by (simp add: same_point_def)
      ultimately show ?thesis using t hh sa sb "1.prems"(3,4) q qp by simp
    next
      case f: False
      obtain c2 a2 p2 where ra: "shoot_ray_to_light2_from rnd hdl (i + 1) qa = (c2, a2, p2)"
        by (cases "shoot_ray_to_light2_from rnd hdl (i + 1) qa")
      obtain c3 b3 p3 where rb: "shoot_ray_to_light2_from rnd hdl (i + 1) qb = (c3, b3, p3)"
        by (cases "shoot_ray_to_light2_from rnd hdl (i + 1) qb")
      have "c2 = c3 \<and> same_path a2 b3 \<and> same_point a2 b3"
        using "1.IH"[OF True ha[symmetric] qa_def f q qp ra rb] .
      with f hh sa sb "1.prems"(3,4) ra rb show ?thesis by simp
    qed
  qed
qed

lemma closesthit_radiance2_diffuse:
  assumes "emit (hg_material (rt_data h)) = False"
  shows "closesthit_radiance2 rnd hdl h ro rd st =
     (case shoot_ray_to_light2 rnd hdl (shade_point2 h ro rd st) of
        (c, s2, probes) \<Rightarrow> s2\<lparr>accum_color := add3 (accum_color s2) (mul3 c (mask_color s2))\<rparr>)"
  using assms
  by (simp add: closesthit_radiance2_def Let_def shade_point2_def hit_point_def tri_e1_def
        tri_e2_def tri_v_def barycentric_normal2_same)

lemma closesthit_radiance2_indep:
  assumes "same_path a b"
  shows "same_path (closesthit_radiance2 rnd hdl h ro rd a) (closesthit_radiance2 rnd hdl h ro rd b) \<and>
         done_flag (closesthit_radiance2 rnd hdl h ro rd a) =
           (emit (hg_material (rt_data h)) \<or> done_flag a) \<and>
         (emit (hg_material (rt_data h)) \<or>
          same_point (closesthit_radiance2 rnd hdl h ro rd a) (closesthit_radiance2 rnd hdl h ro rd b))"
proof (cases "emit (hg_material (rt_data h))")
  case True
  with assms show ?thesis
    by (simp add: closesthit_radiance2_def Let_def same_path_def)
next
  case False
  then have e: "emit (hg_material (rt_data h)) = False" by simp
  let ?pa = "shade_point2 h ro rd a" and ?pb = "shade_point2 h ro rd b"
  obtain c a' pr where ra: "shoot_ray_to_light2_from rnd hdl 0 ?pa = (c, a', pr)"
    by (cases "shoot_ray_to_light2_from rnd hdl 0 ?pa")
  obtain c' b' pr' where rb: "shoot_ray_to_light2_from rnd hdl 0 ?pb = (c', b', pr')"
    by (cases "shoot_ray_to_light2_from rnd hdl 0 ?pb")
  have "same_path ?pa ?pb" "same_point ?pa ?pb"
    using assms by (simp_all add: shade_point2_def same_path_def same_point_def)
  from shoot_ray_to_light2_from_indep[OF this ra rb]
  have r: "c = c'" "same_path a' b'" "same_point a' b'" by simp_all
  from shoot_ray_to_light2_from_fields[OF ra]
  have da: "done_flag a' = done_flag a" by (simp add: shade_point2_def)
  have ca: "closesthit_radiance2 rnd hdl h ro rd a =
      a'\<lparr>accum_color := add3 (accum_color a') (mul3 c (mask_color a'))\<rparr>"
    by (simp add: closesthit_radiance2_diffuse[OF e] shoot_ray_to_light2_def ra)
  have cb: "closesthit_radiance2 rnd hdl h ro rd b =
      b'\<lparr>accum_color := add3 (accum_color b') (mul3 c' (mask_color b'))\<rparr>"
    by (simp add: closesthit_radiance2_diffuse[OF e] shoot_ray_to_light2_def rb)
  from r da False show ?thesis
    unfolding ca cb by (simp add: same_path_def same_point_def)
qed

lemma trace_radiance2_indep:
  assumes "same_path a b" and "done_flag a = False"
  shows "same_path (trace_radiance2 rnd hdl ro rd tmin tmax a)
                   (trace_radiance2 rnd hdl ro rd tmin tmax b) \<and>
         (done_flag (trace_radiance2 rnd hdl ro rd tmin tmax a) \<or>
          same_point (trace_radiance2 rnd hdl ro rd tmin tmax a)
                     (trace_radiance2 rnd hdl ro rd tmin tmax b))"
proof (cases "radiance_hit hdl ro rd tmin tmax")
  case None
  with assms(1) show ?thesis
    by (simp add: trace_radiance2_def miss_radiance_def same_path_def)
next
  case (Some h)
  with closesthit_radiance2_indep[OF assms(1), of rnd hdl h ro rd] assms(2)
  show ?thesis by (auto simp: trace_radiance2_def)
qed

lemma bounce2_from_indep:
  "same_path a b \<Longrightarrow>
   bounce2_from rnd hdl j ro rd a = (fin, tr) \<Longrightarrow>
   bounce2_from rnd hdl j ro rd b = (fin', tr') \<Longrightarrow> same_path fin fin'"
proof (induction rnd hdl j ro rd a arbitrary: b fin tr fin' tr' rule: bounce2_from.induct)
  case (1 rnd hdl j ro rd a)
  show ?case
  proof (cases "j < nb_bounces")
    case False
    with "1.prems" show ?thesis by (simp add: bounce2_from_done)
  next
    case True
    define ta where
      "ta = trace_radiance2 rnd hdl ro rd (1 / 100) (10 ^ 16) (a\<lparr>done_flag := False\<rparr>)"
    define tb where
      "tb = trace_radiance2 rnd hdl ro rd (1 / 100) (10 ^ 16) (b\<lparr>done_flag := False\<rparr>)"
    have "same_path (a\<lparr>done_flag := False\<rparr>) (b\<lparr>done_flag := False\<rparr>)"
      using "1.prems"(1) by (simp add: same_path_def)
    from trace_radiance2_indep[OF this, of rnd hdl ro rd "1 / 100" "10 ^ 16"]
    have t: "same_path ta tb" "done_flag ta \<or> same_point ta tb"
      by (simp_all add: ta_def tb_def)
    then have dd: "done_flag ta = done_flag tb" by (simp add: same_path_def)
    note sa = bounce2_from_unfold[OF True ta_def]
    note sb = bounce2_from_unfold[OF True tb_def]
    show ?thesis
    proof (cases "done_flag ta")
      case d: True
      with dd sa sb "1.prems"(2,3) t(1) show ?thesis by simp
    next
      case f: False
      with t(2) have pt: "normal ta = normal tb" "xyz ta = xyz tb"
        by (simp_all add: same_point_def)
      from t(1) have sd: "seed ta = seed tb" by (simp add: same_path_def)
      define d where "d = fst (shoot_ray_hemisphere2 rnd ta)"
      define a1 where "a1 = ta\<lparr>seed := snd (draw3 rnd (seed ta))\<rparr>"
      define b1 where "b1 = tb\<lparr>seed := snd (draw3 rnd (seed ta))\<rparr>"
      have ha: "shoot_ray_hemisphere2 rnd ta = (d, a1)"
        by (simp add: d_def a1_def shoot_ray_hemisphere2_draw3)
      have hb: "shoot_ray_hemisphere2 rnd tb = (d, b1)"
        by (simp add: d_def b1_def shoot_ray_hemisphere2_draw3 pt sd)
      have s1: "same_path a1 b1" using t(1) by (simp add: a1_def b1_def same_path_def)
      obtain fin2 tr2 where ra: "bounce2_from rnd hdl (j + 1) (xyz ta) d a1 = (fin2, tr2)"
        by (cases "bounce2_from rnd hdl (j + 1) (xyz ta) d a1")
      obtain fin3 tr3 where rb: "bounce2_from rnd hdl (j + 1) (xyz ta) d b1 = (fin3, tr3)"
        by (cases "bounce2_from rnd hdl (j + 1) (xyz ta) d b1")
      have "same_path fin2 fin3"
        using "1.IH"[OF True ta_def f ha[symmetric] s1 ra rb] .
      moreover from f sa "1.prems"(2) ra ha have "fin = fin2" by simp
      moreover from f dd sb "1.prems"(3) rb hb pt have "fin' = fin3" by simp
      ultimately show ?thesis by simp
    qed
  qed
qed

lemma samples_from_indep:
  "(\<And>t. fst (path t) = fst (path' t) \<and>
          accum_color (fst (snd (path t))) = accum_color (fst (snd (path' t)))) \<Longrightarrow>
   samples_from path n i s acc = samples_from path' n i s acc"
proof (induction path n i s acc rule: samples_from.induct)
  case (1 path n i s acc)
  show ?case
  proof (cases "int i < n")
    case False
    then show ?thesis by (simp add: samples_from.simps[of _ n i])
  next
    case True
    obtain s1 fin tr where pa: "path s = (s1, fin, tr)" by (cases "path s")
    obtain s2 fin' tr' where pb: "path' s = (s2, fin', tr')" by (cases "path' s")
    from "1.prems"[of s] pa pb have e: "s1 = s2" "accum_color fin = accum_color fin'" by simp_all
    have "samples_from path n (i + 1) s1 (add3 acc (accum_color fin)) =
          samples_from path' n (i + 1) s1 (add3 acc (accum_color fin))"
      using "1.IH"[OF True pa[symmetric] refl "1.prems"] .
    with True pa pb e show ?thesis
      by (simp add: samples_from.simps[of _ n i])
  qed
qed

lemma decl_same_path:
  "same_path ((Intersection_decl u)\<lparr>seed := s\<rparr>) ((Intersection_decl u')\<lparr>seed := s\<rparr>)"
  by (simp add: same_path_def Intersection_decl_def)

lemma camera_direction_same:
  "same_launch p p' \<Longrightarrow> camera_direction p x y j = camera_direction p' x y j"
  by (simp add: same_launch_def camera_direction_def)

lemma sample_path_indep:
  assumes "same_launch p p'"
  shows "fst (sample_path rnd p u x y s) = fst (sample_path rnd p' u' x y s) \<and>
         accum_color (fst (snd (sample_path rnd p u x y s))) =
         accum_color (fst (snd (sample_path rnd p' u' x y s)))"
proof -
  obtain jt s' where j: "antialiasing_jitter rnd s = (jt, s')"
    by (cases "antialiasing_jitter rnd s")
  from assms have f: "handle p' = handle p" "eye p' = eye p"
    by (simp_all add: same_launch_def)
  let ?ro = "eye p" and ?rd = "camera_direction p x y jt"
  obtain sf fin tr where
    a: "bounce_from rnd (handle p) u 0 ?ro ?rd s' ((Intersection_decl u)\<lparr>seed := s\<rparr>) = (sf, fin, tr)"
    by (cases "bounce_from rnd (handle p) u 0 ?ro ?rd s' ((Intersection_decl u)\<lparr>seed := s\<rparr>)")
  obtain sf' fin' tr' where
    b: "bounce_from rnd (handle p) u' 0 ?ro ?rd s' ((Intersection_decl u')\<lparr>seed := s\<rparr>) =
          (sf', fin', tr')"
    by (cases "bounce_from rnd (handle p) u' 0 ?ro ?rd s' ((Intersection_decl u')\<lparr>seed := s\<rparr>)")
  from bounce_from_indep[OF decl_same_path a b]
  have "sf = sf'" "accum_color fin = accum_color fin'" by (simp_all add: same_path_def)
  then show ?thesis
    by (simp add: sample_path_def Let_def j a b f camera_direction_same[OF assms, symmetric])
qed

lemma sample_path2_indep:
  assumes "same_launch p p'"
  shows "fst (sample_path2 rnd p u x y s) = fst (sample_path2 rnd p' u' x y s) \<and>
         accum_color (fst (snd (sample_path2 rnd p u x y s))) =
         accum_color (fst (snd (sample_path2 rnd p' u' x y s)))"
proof -
  obtain jt s' where j: "antialiasing_jitter2 rnd s = (jt, s')"
    by (cases "antialiasing_jitter2 rnd s")
  from assms have f: "handle p' = handle p" "eye p' = eye p"
    by (simp_all add: same_launch_def)
  let ?ro = "eye p" and ?rd = "camera_direction p x y jt"
  obtain fin tr where
    a: "bounce2_from rnd (handle p) 0 ?ro ?rd ((Intersection_decl u)\<lparr>seed := s\<rparr>) = (fin, tr)"
    by (cases "bounce2_from rnd (handle p) 0 ?ro ?rd ((Intersection_decl u)\<lparr>seed := s\<rparr>)")
  obtain fin' tr' where
    b: "bounce2_from rnd (handle p) 0 ?ro ?rd ((Intersection_decl u')\<lparr>seed := s\<rparr>) = (fin', tr')"
    by (cases "bounce2_from rnd (handle p) 0 ?ro ?rd ((Intersection_decl u')\<lparr>seed := s\<rparr>)")
  from bounce2_from_indep[OF decl_same_path a b]
  have "accum_color fin = accum_color fin'" by (simp add: same_path_def)
  then show ?thesis
    by (simp add: sample_path2_def Let_def j a b f camera_direction_same[OF assms, symmetric])
qed

lemma frame_estimate_indep:
  assumes "same_launch p p'"
    and "\<And>t. fst (path t) = fst (path' t) \<and>
          accum_color (fst (snd (path t))) = accum_color (fst (snd (path' t)))"
  shows "frame_estimate path p s = frame_estimate path' p' s"
  using samples_from_indep[of path path', OF assms(2)] assms(1)
  by (simp add: frame_estimate_def same_launch_def)

text \<open>
  C9. Two runs of the ray generation for the same pixel, on launch parameters that
  agree on image size, camera, frame index, sample count and scene, start from the same
  seed, the hash of the pixel index and the frame index, and compute the same
  \<^verbatim>\<open>accum_color\<close> for the frame, in both files, whatever the uninitialised memory under
  the local intersections and whatever the buffers hold. If the cell of the pixel in
  the accumulation buffer is the same in both runs, so is the cell they store.
\<close>

theorem raygen_deterministic:
  assumes "same_launch p p'"
  shows "pixel_seed tea4 p x y = pixel_seed tea4 p' x y \<and>
         frame_estimate (sample_path rnd p u x y) p (pixel_seed tea4 p x y) =
         frame_estimate (sample_path rnd p' u' x y) p' (pixel_seed tea4 p' x y) \<and>
         frame_estimate (sample_path2 rnd p u x y) p (pixel_seed tea4 p x y) =
         frame_estimate (sample_path2 rnd p' u' x y) p' (pixel_seed tea4 p' x y) \<and>
         (accum_buffer p (y * width p + x) = accum_buffer p' (y * width p + x) \<longrightarrow>
            accum_buffer (raygen_rg rnd tea4 make_color u p x y) (y * width p + x) =
            accum_buffer (raygen_rg rnd tea4 make_color u' p' x y) (y * width p + x) \<and>
            accum_buffer (raygen_rg2 rnd tea4 make_color u p x y) (y * width p + x) =
            accum_buffer (raygen_rg2 rnd tea4 make_color u' p' x y) (y * width p + x))"
proof -
  from assms have w: "width p' = width p" "subframe_index p' = subframe_index p"
    by (simp_all add: same_launch_def)
  have 1: "pixel_seed tea4 p x y = pixel_seed tea4 p' x y"
    by (simp add: pixel_seed_def w)
  have 2: "frame_estimate (sample_path rnd p u x y) p (pixel_seed tea4 p x y) =
         frame_estimate (sample_path rnd p' u' x y) p' (pixel_seed tea4 p' x y)"
    unfolding 1 by (rule frame_estimate_indep[OF assms]) (rule sample_path_indep[OF assms])
  have 3: "frame_estimate (sample_path2 rnd p u x y) p (pixel_seed tea4 p x y) =
         frame_estimate (sample_path2 rnd p' u' x y) p' (pixel_seed tea4 p' x y)"
    unfolding 1 by (rule frame_estimate_indep[OF assms]) (rule sample_path2_indep[OF assms])
  have c: "accum_buffer (raygen_store make_color p' x y acc) (y * width p + x) =
      make_float4 (blend (subframe_index p) (accum_buffer p' (y * width p + x)) acc) 1" for acc
    using raygen_store_cell[of make_color p' x y acc] by (simp add: w)
  from 1 2 3 show ?thesis
    by (simp add: raygen_rg_def raygen_rg2_def raygen_store_cell c)
qed

theorem raygen_deterministic_witness:
  "same_launch test_params other_buffers \<and>
   accum_buffer test_params 0 \<noteq> accum_buffer other_buffers 0 \<and>
   Intersection_decl first_state \<noteq> Intersection_decl steep_state \<and>
   (\<forall>tea4.
     frame_estimate (sample_path lcg_rnd test_params first_state 1 2) test_params
        (pixel_seed tea4 test_params 1 2) =
     frame_estimate (sample_path lcg_rnd other_buffers steep_state 1 2) other_buffers
        (pixel_seed tea4 other_buffers 1 2) \<and>
     frame_estimate (sample_path2 lcg_rnd test_params first_state 1 2) test_params
        (pixel_seed tea4 test_params 1 2) =
     frame_estimate (sample_path2 lcg_rnd other_buffers steep_state 1 2) other_buffers
        (pixel_seed tea4 other_buffers 1 2))"
proof -
  have h: "same_launch test_params other_buffers"
    by (simp add: same_launch_def other_buffers_def)
  have d: "accum_buffer test_params 0 \<noteq> accum_buffer other_buffers 0"
    by (simp add: test_params_def other_buffers_def splat3_def)
  have e: "Intersection_decl first_state \<noteq> Intersection_decl steep_state"
  proof
    assume "Intersection_decl first_state = Intersection_decl steep_state"
    then have "normal (Intersection_decl first_state) = normal (Intersection_decl steep_state)"
      by simp
    then show False
      by (simp add: Intersection_decl_def first_state_def steep_state_def)
  qed
  from raygen_deterministic[OF h] h d e show ?thesis by blast
qed

subsection \<open>Two scenes\<close>

text \<open>
  In a scene of diffuse surfaces only, with no miss, the bounce loop makes exactly
  \<^verbatim>\<open>nb_bounces\<close> radiance queries and none of them sets \<^verbatim>\<open>done\<close>; \<open>lamp_then_wall\<close> is such
  a scene. In a scene without geometry it makes one query, which adds the background.
\<close>

lemma same_path_refl: "same_path a a"
  by (simp add: same_path_def)

lemma trace_radiance_diffuse_done:
  assumes "all_diffuse hdl"
  shows "done_flag (trace_radiance rnd hdl u ro rd tmin tmax st) = done_flag st"
    and "done_flag (trace_radiance2 rnd hdl ro rd tmin tmax st) = done_flag st"
proof -
  from assms obtain h where h: "radiance_hit hdl ro rd tmin tmax = Some h"
    "emit (hg_material (rt_data h)) = False"
    unfolding all_diffuse_def by blast
  from closesthit_radiance_indep[OF same_path_refl, of rnd hdl u h ro rd st u] h
  show "done_flag (trace_radiance rnd hdl u ro rd tmin tmax st) = done_flag st"
    by (simp add: trace_radiance_def)
  from closesthit_radiance2_indep[OF same_path_refl, of rnd hdl h ro rd st] h
  show "done_flag (trace_radiance2 rnd hdl ro rd tmin tmax st) = done_flag st"
    by (simp add: trace_radiance2_def)
qed

lemma bounce_from_all_diffuse:
  "all_diffuse hdl \<Longrightarrow> j \<le> nb_bounces \<Longrightarrow>
   bounce_from rnd hdl u j ro rd s st = (sf, fin, traces) \<Longrightarrow>
     length traces = nb_bounces - j \<and> list_all (\<lambda>t. \<not> done_flag t) traces"
proof (induction rnd hdl u j ro rd s st arbitrary: sf fin traces rule: bounce_from.induct)
  case (1 rnd hdl u j ro rd s st)
  show ?case
  proof (cases "j < nb_bounces")
    case False
    with "1.prems" show ?thesis by (simp add: bounce_from_done)
  next
    case True
    define traced where
      "traced = trace_radiance rnd hdl u ro rd (1 / 10 ^ 6) (10 ^ 16) (st\<lparr>done_flag := False\<rparr>)"
    have nd: "\<not> done_flag traced"
      by (simp add: traced_def trace_radiance_diffuse_done(1)[OF "1.prems"(1)])
    obtain d s' where h: "shoot_ray_hemisphere rnd (normal traced) s = (d, s')"
      by (cases "shoot_ray_hemisphere rnd (normal traced) s")
    obtain sf2 fin2 tr2 where
      r: "bounce_from rnd hdl u (j + 1) (xyz traced) d (seed traced) traced = (sf2, fin2, tr2)"
      by (cases "bounce_from rnd hdl u (j + 1) (xyz traced) d (seed traced) traced")
    from bounce_from_unfold[OF True traced_def, of s] nd "1.prems"(3) r h
    have e: "traces = traced # tr2" by simp
    from True have "j + 1 \<le> nb_bounces" by simp
    from "1.IH"[OF True traced_def nd h[symmetric] "1.prems"(1) this r]
    have "length tr2 = nb_bounces - (j + 1) \<and> list_all (\<lambda>t. \<not> done_flag t) tr2" .
    with e nd True show ?thesis by simp
  qed
qed

lemma bounce2_from_all_diffuse:
  "all_diffuse hdl \<Longrightarrow> j \<le> nb_bounces \<Longrightarrow>
   bounce2_from rnd hdl j ro rd st = (fin, traces) \<Longrightarrow>
     length traces = nb_bounces - j \<and> list_all (\<lambda>t. \<not> done_flag t) traces"
proof (induction rnd hdl j ro rd st arbitrary: fin traces rule: bounce2_from.induct)
  case (1 rnd hdl j ro rd st)
  show ?case
  proof (cases "j < nb_bounces")
    case False
    with "1.prems" show ?thesis by (simp add: bounce2_from_done)
  next
    case True
    define traced where
      "traced = trace_radiance2 rnd hdl ro rd (1 / 100) (10 ^ 16) (st\<lparr>done_flag := False\<rparr>)"
    have nd: "\<not> done_flag traced"
      by (simp add: traced_def trace_radiance_diffuse_done(2)[OF "1.prems"(1)])
    obtain d st1 where h: "shoot_ray_hemisphere2 rnd traced = (d, st1)"
      by (cases "shoot_ray_hemisphere2 rnd traced")
    obtain fin2 tr2 where
      r: "bounce2_from rnd hdl (j + 1) (xyz traced) d st1 = (fin2, tr2)"
      by (cases "bounce2_from rnd hdl (j + 1) (xyz traced) d st1")
    from bounce2_from_unfold[OF True traced_def] nd "1.prems"(3) r h
    have e: "traces = traced # tr2" by simp
    from True have "j + 1 \<le> nb_bounces" by simp
    from "1.IH"[OF True traced_def nd h[symmetric] "1.prems"(1) this r]
    have "length tr2 = nb_bounces - (j + 1) \<and> list_all (\<lambda>t. \<not> done_flag t) tr2" .
    with e nd True show ?thesis by simp
  qed
qed

lemma lamp_then_wall_all_diffuse: "all_diffuse lamp_then_wall"
  by (simp add: all_diffuse_def lamp_then_wall_def hit_on_def wall_material_def)

lemma empty_scene_one_query:
  assumes "radiance_hit hdl = (\<lambda>ray_origin ray_direction tmin tmax. None)"
  shows "bounce_from rnd hdl u 0 ro rd s st =
           (s, miss_radiance (bg_color hdl) (st\<lparr>done_flag := False\<rparr>),
            [miss_radiance (bg_color hdl) (st\<lparr>done_flag := False\<rparr>)])"
proof -
  define traced where
    "traced = trace_radiance rnd hdl u ro rd (1 / 10 ^ 6) (10 ^ 16) (st\<lparr>done_flag := False\<rparr>)"
  have t: "traced = miss_radiance (bg_color hdl) (st\<lparr>done_flag := False\<rparr>)"
    by (simp add: traced_def trace_radiance_def assms)
  have "0 < nb_bounces" by (simp add: nb_bounces_def)
  from bounce_from_unfold[OF this traced_def, of s] show ?thesis
    by (simp add: t miss_radiance_def)
qed

end
